theory Spec2Isabelle
  imports Complex_Main
begin

section \<open>JavaScript values\<close>

text \<open>
  The export service (\<^verbatim>\<open>src/unnamed/part_007\<close>) handles rows typed \<^verbatim>\<open>any\<close>.
  A row value is modelled by \<open>jsval\<close>. Numbers are exact rationals (binary floating
  point is not modelled) with \<open>JNaN\<close> apart; strings are ASCII character lists; a
  \<^verbatim>\<open>Date\<close> is its time value in milliseconds (\<open>None\<close> for an invalid date); a
  function is its source text; an object is the list of its own properties, in
  insertion order.
\<close>

datatype jsval =
    JUndefined
  | JNull
  | JBool bool
  | JNum rat
  | JNaN
  | JStr string
  | JDate "int option"
  | JFunction string
  | JObj "(string \<times> jsval) list"

text \<open>Exceptions: a plain \<^verbatim>\<open>Error\<close> with its message, a \<^verbatim>\<open>TypeError\<close>, and the
  service's \<^verbatim>\<open>ApiError(message, statusCode)\<close>.\<close>

datatype js_error =
    Error string
  | TypeError string
  | ApiError string nat

fun message :: "js_error \<Rightarrow> string" where
  "message (Error m) = m"
| "message (TypeError m) = m"
| "message (ApiError m c) = m"

text \<open>Truthiness, as \<^verbatim>\<open>&&\<close>, \<^verbatim>\<open>||\<close>, \<^verbatim>\<open>?:\<close> and \<^verbatim>\<open>if\<close> read it.\<close>

fun truthy :: "jsval \<Rightarrow> bool" where
  "truthy JUndefined = False"
| "truthy JNull = False"
| "truthy (JBool b) = b"
| "truthy (JNum n) = (n \<noteq> 0)"
| "truthy JNaN = False"
| "truthy (JStr s) = (s \<noteq> [])"
| "truthy (JDate t) = True"
| "truthy (JFunction f) = True"
| "truthy (JObj kvs) = True"

subsection \<open>Decimal digits\<close>

definition digit_char :: "nat \<Rightarrow> char" where
  "digit_char n = char_of (48 + n)"

function show_nat :: "nat \<Rightarrow> string" where
  "show_nat n = (if n < 10 then [digit_char n] else show_nat (n div 10) @ [digit_char (n mod 10)])"
  by pat_completeness auto
termination
  by (relation "measure id") auto

definition show_int :: "int \<Rightarrow> string" where
  "show_int i = (if i < 0 then CHR ''-'' # show_nat (nat (- i)) else show_nat (nat i))"

text \<open>\<^verbatim>\<open>x.toFixed(2)\<close>: the sign first, then the magnitude rounded to the nearest
  hundredth, the larger one on a tie (magnitudes from \<open>10^21\<close> on, which print in
  exponent form, are outside the model).\<close>

definition toFixed2 :: "rat \<Rightarrow> string" where
  "toFixed2 x =
     (let n = nat \<lfloor>\<bar>x\<bar> * 100 + 1 / 2\<rfloor>
      in (if x < 0 then ''-'' else '''') @ show_nat (n div 100) @ ''.'' @
         [digit_char (n mod 100 div 10), digit_char (n mod 10)])"

subsection \<open>Environment\<close>

text \<open>
  What the service takes from its platform and libraries, as parameters: the member
  a value inherits from its prototype chain under a key (\<open>None\<close> when it inherits
  none), the date formatting and parsing of the runtime (\<open>parseDate\<close> is the time
  value of \<^verbatim>\<open>new Date(v)\<close>), the conversion of a string to a number (\<open>None\<close> for NaN), the
  printing of a number that is not an integer, the \<^verbatim>\<open>json2csv\<close> parser configured
  with a field list, \<^verbatim>\<open>JSON.stringify(data, null, 2)\<close>, the page height of the PDF
  library (\<^verbatim>\<open>doc.page.height\<close>) and the database's truncation of a timestamp by a
  SQL expression.
\<close>

record env =
  inherited :: "jsval \<Rightarrow> string \<Rightarrow> jsval option"
  toISOString :: "int \<Rightarrow> string"
  toLocaleString :: "int \<Rightarrow> string"
  toLocaleDateString :: "int \<Rightarrow> string"
  parseDate :: "jsval \<Rightarrow> int option"
  stringToNumber :: "string \<Rightarrow> rat option"
  fractionToString :: "rat \<Rightarrow> string"
  csvParse :: "string list \<Rightarrow> jsval list \<Rightarrow> js_error + string"
  jsonStringify :: "jsval list \<Rightarrow> string"
  pageHeight :: int
  dateTrunc :: "string \<Rightarrow> int \<Rightarrow> int"

subsection \<open>Property access\<close>

text \<open>
  \<^verbatim>\<open>obj[key]\<close>. Reading a property of \<^verbatim>\<open>null\<close> or \<^verbatim>\<open>undefined\<close> throws a
  TypeError. An object answers with its own property; a string has its \<^verbatim>\<open>length\<close>
  and its characters at the canonical indices; numbers, booleans, dates and functions
  have no own property here. Where the value has no own property of that name, the
  answer is the member it inherits, or \<^verbatim>\<open>undefined\<close>.
\<close>

definition inheritedOr :: "env \<Rightarrow> jsval \<Rightarrow> string \<Rightarrow> jsval" where
  "inheritedOr env obj k = (case inherited env obj k of None \<Rightarrow> JUndefined | Some m \<Rightarrow> m)"

fun getProp :: "env \<Rightarrow> jsval \<Rightarrow> string \<Rightarrow> js_error + jsval" where
  "getProp env JUndefined k = Inl (TypeError ''Cannot read properties of undefined'')"
| "getProp env JNull k = Inl (TypeError ''Cannot read properties of null'')"
| "getProp env (JObj kvs) k =
     Inr (case map_of kvs k of None \<Rightarrow> inheritedOr env (JObj kvs) k | Some v \<Rightarrow> v)"
| "getProp env (JStr s) k =
     Inr (if k = ''length'' then JNum (of_nat (length s))
          else (case find (\<lambda>i. show_nat i = k) [0..<length s] of
                  None \<Rightarrow> inheritedOr env (JStr s) k
                | Some i \<Rightarrow> JStr [s ! i]))"
| "getProp env (JBool b) k = Inr (inheritedOr env (JBool b) k)"
| "getProp env (JNum n) k = Inr (inheritedOr env (JNum n) k)"
| "getProp env JNaN k = Inr (inheritedOr env JNaN k)"
| "getProp env (JDate t) k = Inr (inheritedOr env (JDate t) k)"
| "getProp env (JFunction f) k = Inr (inheritedOr env (JFunction f) k)"

subsection \<open>String helpers\<close>

text \<open>\<^verbatim>\<open>s.split(c)\<close> for a one-character separator: never empty, \<^verbatim>\<open>"".split(".")\<close> is
  \<^verbatim>\<open>[""]\<close>.\<close>

fun split :: "char \<Rightarrow> string \<Rightarrow> string list" where
  "split c [] = [[]]"
| "split c (x # xs) =
     (if x = c then [] # split c xs
      else (case split c xs of [] \<Rightarrow> [[x]] | w # ws \<Rightarrow> (x # w) # ws))"

text \<open>\<^verbatim>\<open>xs.join(sep)\<close>.\<close>

fun join :: "string \<Rightarrow> string list \<Rightarrow> string" where
  "join sep [] = []"
| "join sep [x] = x"
| "join sep (x # y # ys) = x @ sep @ join sep (y # ys)"

text \<open>\<^verbatim>\<open>toUpperCase\<close> on ASCII letters.\<close>

definition toUpperChar :: "char \<Rightarrow> char" where
  "toUpperChar c =
     (let n = (of_char c :: nat) in if 97 \<le> n \<and> n \<le> 122 then char_of (n - 32) else c)"

definition toUpperCase :: "string \<Rightarrow> string" where
  "toUpperCase s = map toUpperChar s"

text \<open>The header label of the workbook and of the paginated document:
  \<^verbatim>\<open>field.charAt(0).toUpperCase() + field.slice(1)\<close>.\<close>

definition headerLabel :: "string \<Rightarrow> string" where
  "headerLabel field = toUpperCase (take 1 field) @ drop 1 field"

section \<open>Field projection\<close>

text \<open>
  Both the workbook and the paginated-document renderer read a cell with
  \<^verbatim>\<open>field.split(".").reduce((obj, key) => (obj && obj[key] !== undefined ? obj[key] : null), item)\<close>.
  \<open>projStep\<close> is the callback: \<^verbatim>\<open>obj[key]\<close> is only evaluated when \<^verbatim>\<open>obj\<close> is
  truthy.
\<close>

definition projStep :: "env \<Rightarrow> jsval \<Rightarrow> string \<Rightarrow> js_error + jsval" where
  "projStep env obj key =
     (if truthy obj then
        (case getProp env obj key of
           Inl e \<Rightarrow> Inl e
         | Inr v \<Rightarrow> if v \<noteq> JUndefined then getProp env obj key else Inr JNull)
      else Inr JNull)"

fun reduceProj :: "env \<Rightarrow> jsval \<Rightarrow> string list \<Rightarrow> js_error + jsval" where
  "reduceProj env acc [] = Inr acc"
| "reduceProj env acc (k # ks) =
     (case projStep env acc k of Inl e \<Rightarrow> Inl e | Inr v \<Rightarrow> reduceProj env v ks)"

definition project :: "env \<Rightarrow> jsval \<Rightarrow> string \<Rightarrow> js_error + jsval" where
  "project env item field = reduceProj env item (split (CHR ''.'') field)"

text \<open>\<^verbatim>\<open>value !== null && value !== undefined ? value : ""\<close>: what the workbook cell
  receives.\<close>

definition cellValue :: "jsval \<Rightarrow> jsval" where
  "cellValue v = (if v \<noteq> JNull \<and> v \<noteq> JUndefined then v else JStr '''')"

section \<open>Conversions and world\<close>

text \<open>\<^verbatim>\<open>Number(v)\<close>.\<close>

fun Number :: "env \<Rightarrow> jsval \<Rightarrow> jsval" where
  "Number env JUndefined = JNaN"
| "Number env JNull = JNum 0"
| "Number env (JBool b) = JNum (if b then 1 else 0)"
| "Number env (JNum n) = JNum n"
| "Number env JNaN = JNaN"
| "Number env (JStr s) = (case stringToNumber env s of None \<Rightarrow> JNaN | Some n \<Rightarrow> JNum n)"
| "Number env (JDate t) = (case t of None \<Rightarrow> JNaN | Some ms \<Rightarrow> JNum (of_int ms))"
| "Number env (JFunction f) = JNaN"
| "Number env (JObj kvs) = JNaN"

text \<open>\<^verbatim>\<open>v.toFixed(2)\<close> on the result of \<^verbatim>\<open>Number\<close> or of an arithmetic expression.\<close>

fun toFixed :: "jsval \<Rightarrow> string" where
  "toFixed (JNum n) = toFixed2 n"
| "toFixed v = ''NaN''"

text \<open>\<^verbatim>\<open>a || b\<close>.\<close>

definition jsOr :: "jsval \<Rightarrow> jsval \<Rightarrow> jsval" where
  "jsOr a b = (if truthy a then a else b)"

text \<open>\<^verbatim>\<open>v.toString()\<close>: a TypeError on \<^verbatim>\<open>null\<close> and \<^verbatim>\<open>undefined\<close>; an integer
  prints in decimal digits (magnitudes from \<open>10^21\<close> on are outside the model).\<close>

fun toString :: "env \<Rightarrow> jsval \<Rightarrow> js_error + string" where
  "toString env JUndefined = Inl (TypeError ''Cannot read properties of undefined'')"
| "toString env JNull = Inl (TypeError ''Cannot read properties of null'')"
| "toString env (JBool b) = Inr (if b then ''true'' else ''false'')"
| "toString env (JNum n) =
     Inr (if of_int \<lfloor>n\<rfloor> = n then show_int \<lfloor>n\<rfloor> else fractionToString env n)"
| "toString env JNaN = Inr ''NaN''"
| "toString env (JStr s) = Inr s"
| "toString env (JDate t) = Inr (case t of None \<Rightarrow> ''Invalid Date'' | Some ms \<Rightarrow> toLocaleString env ms)"
| "toString env (JFunction f) = Inr f"
| "toString env (JObj kvs) = Inr ''[object Object]''"

text \<open>
  The world an export runs in: the clock read by \<^verbatim>\<open>new Date()\<close> (one reading per
  call of an export function), the working directory, the directories and files that
  exist, and the number of queries sent to the database so far. \<open>writeFault\<close> is
  the file system's fault, if any: \<open>Some (n, m)\<close> when the next write fails with
  message \<open>m\<close> after \<open>n\<close> characters have reached the file.
\<close>

datatype pdf_op =
    FontSize nat
  | Text string string
  | MoveDown nat
  | Rect int int int int
  | FillAndStroke string string
  | FillColor string
  | TextAt string int int "(int \<times> int) option"
  | AddPage

record workbook =
  sheetName :: string
  sheetRows :: "jsval list list"
  headerBold :: bool
  headerFill :: string
  columnWidths :: "nat list"

datatype file_content =
    TextFile string
  | XlsxFile workbook
  | PdfFile "pdf_op list"
  | Truncated

record world =
  clock :: int
  cwd :: string
  dirs :: "string list"
  files :: "string \<Rightarrow> file_content option"
  dbCalls :: nat
  writeFault :: "(nat \<times> string) option"

section \<open>File staging\<close>

datatype ExportDataType =
    ORDERS | PRODUCTS | CUSTOMERS | SALES | INVENTORY
  | LOYALTY_POINTS | LOYALTY_REDEMPTIONS | LOYALTY_TIERS | LOYALTY_REFERRALS
  | VENDORS | CATEGORIES | REVIEWS | ANALYTICS

fun dataTypeStr :: "ExportDataType \<Rightarrow> string" where
  "dataTypeStr ORDERS = ''orders''"
| "dataTypeStr PRODUCTS = ''products''"
| "dataTypeStr CUSTOMERS = ''customers''"
| "dataTypeStr SALES = ''sales''"
| "dataTypeStr INVENTORY = ''inventory''"
| "dataTypeStr LOYALTY_POINTS = ''loyalty_points''"
| "dataTypeStr LOYALTY_REDEMPTIONS = ''loyalty_redemptions''"
| "dataTypeStr LOYALTY_TIERS = ''loyalty_tiers''"
| "dataTypeStr LOYALTY_REFERRALS = ''loyalty_referrals''"
| "dataTypeStr VENDORS = ''vendors''"
| "dataTypeStr CATEGORIES = ''categories''"
| "dataTypeStr REVIEWS = ''reviews''"
| "dataTypeStr ANALYTICS = ''analytics''"

text \<open>
  \<^verbatim>\<open>ExportFormat\<close> is a string enum: at run time a format is its string, and a caller
  can pass any string. The four members:
\<close>

abbreviation CSV :: string where "CSV \<equiv> ''csv''"
abbreviation EXCEL :: string where "EXCEL \<equiv> ''excel''"
abbreviation PDF :: string where "PDF \<equiv> ''pdf''"
abbreviation JSON :: string where "JSON \<equiv> ''json''"

text \<open>\<^verbatim>\<open>.replace(/[:.]/g, "-")\<close>.\<close>

definition replaceColonDot :: "string \<Rightarrow> string" where
  "replaceColonDot s = map (\<lambda>c. if c = CHR '':'' \<or> c = CHR ''.'' then CHR ''-'' else c) s"

definition generateFilename :: "env \<Rightarrow> ExportDataType \<Rightarrow> string \<Rightarrow> world \<Rightarrow> string" where
  "generateFilename env dataType format w =
     (let timestamp = replaceColonDot (toISOString env (clock w))
      in dataTypeStr dataType @ ''-export-'' @ timestamp @ ''.'' @ format)"

text \<open>\<^verbatim>\<open>path.join(a, b)\<close> on two plain segments.\<close>

definition pathJoin :: "string \<Rightarrow> string \<Rightarrow> string" where
  "pathJoin a b = a @ ''/'' @ b"

definition ensureExportDirectory :: "world \<Rightarrow> string \<times> world" where
  "ensureExportDirectory w =
     (let exportDir = pathJoin (cwd w) ''exports''
      in if exportDir \<notin> set (dirs w)
         then (exportDir, w\<lparr>dirs := exportDir # dirs w\<rparr>)
         else (exportDir, w))"

text \<open>
  \<^verbatim>\<open>fs.writeFileSync(path, data)\<close> writes to \<open>path\<close> itself. When the file system
  fails during the write, the characters written so far stay in the file and the
  error is thrown.
\<close>

definition writeFileSync :: "string \<Rightarrow> string \<Rightarrow> world \<Rightarrow> (js_error + unit) \<times> world" where
  "writeFileSync filePath content w =
     (case writeFault w of
        None \<Rightarrow> (Inr (), w\<lparr>files := (files w)(filePath \<mapsto> TextFile content)\<rparr>)
      | Some (n, m) \<Rightarrow>
          (Inl (Error m), w\<lparr>files := (files w)(filePath \<mapsto> TextFile (take n content))\<rparr>))"

text \<open>A binary document (workbook, PDF) reaching \<open>path\<close>, or failing on the way.\<close>

definition writeDocument :: "string \<Rightarrow> file_content \<Rightarrow> world \<Rightarrow> (js_error + unit) \<times> world" where
  "writeDocument filePath content w =
     (case writeFault w of
        None \<Rightarrow> (Inr (), w\<lparr>files := (files w)(filePath \<mapsto> content)\<rparr>)
      | Some (n, m) \<Rightarrow> (Inl (Error m), w\<lparr>files := (files w)(filePath \<mapsto> Truncated)\<rparr>))"

section \<open>Format renderers\<close>

text \<open>
  Each renderer takes the rows (\<^verbatim>\<open>data\<close>), the field list (the source's \<^verbatim>\<open>fields\<close>,
  written \<open>flds\<close> here) and the data type, and returns the path of the file or
  throws.
\<close>

text \<open>A loop whose body may throw: the first exception ends it.\<close>

fun mapE :: "('a \<Rightarrow> js_error + 'b) \<Rightarrow> 'a list \<Rightarrow> js_error + 'b list" where
  "mapE f [] = Inr []"
| "mapE f (x # xs) =
     (case f x of
        Inl e \<Rightarrow> Inl e
      | Inr y \<Rightarrow> (case mapE f xs of Inl e \<Rightarrow> Inl e | Inr ys \<Rightarrow> Inr (y # ys)))"

subsection \<open>Delimited text\<close>

text \<open>
  \<^verbatim>\<open>exportToCsv\<close>: the parser is built with \<^verbatim>\<open>{ fields }\<close> and parses the rows; the
  text is written to the final path by one \<^verbatim>\<open>writeFileSync\<close>. Any exception
  becomes an \<^verbatim>\<open>ApiError\<close> with status 500.
\<close>

definition exportToCsv ::
  "env \<Rightarrow> jsval list \<Rightarrow> string list \<Rightarrow> ExportDataType \<Rightarrow> world \<Rightarrow> (js_error + string) \<times> world" where
  "exportToCsv env data flds dataType w =
     (case csvParse env flds data of
        Inl e \<Rightarrow> (Inl (ApiError (''Failed to export data to CSV: '' @ message e) 500), w)
      | Inr csv \<Rightarrow>
          (let (exportDir, w1) = ensureExportDirectory w;
               filename = generateFilename env dataType CSV w1;
               filePath = pathJoin exportDir filename;
               (r, w2) = writeFileSync filePath csv w1
           in case r of
                Inl e \<Rightarrow> (Inl (ApiError (''Failed to export data to CSV: '' @ message e) 500), w2)
              | Inr u \<Rightarrow> (Inr filePath, w2)))"

subsection \<open>Workbook\<close>

definition excelRow :: "env \<Rightarrow> string list \<Rightarrow> jsval \<Rightarrow> js_error + jsval list" where
  "excelRow env flds item =
     mapE (\<lambda>field. case project env item field of Inl e \<Rightarrow> Inl e | Inr v \<Rightarrow> Inr (cellValue v))
       flds"

text \<open>The value the workbook cell of a field receives.\<close>

definition cellOf :: "env \<Rightarrow> jsval \<Rightarrow> string \<Rightarrow> jsval" where
  "cellOf env item field =
     (case project env item field of Inl e \<Rightarrow> JUndefined | Inr v \<Rightarrow> cellValue v)"

text \<open>Auto-fit: \<^verbatim>\<open>cell.value ? cell.value.toString().length : 10\<close>, the largest over the
  column, then \<^verbatim>\<open>maxLength < 10 ? 10 : maxLength + 2\<close>.\<close>

definition cellLength :: "env \<Rightarrow> jsval \<Rightarrow> js_error + nat" where
  "cellLength env v =
     (if truthy v then (case toString env v of Inl e \<Rightarrow> Inl e | Inr s \<Rightarrow> Inr (length s))
      else Inr 10)"

definition columnWidth :: "env \<Rightarrow> jsval list \<Rightarrow> js_error + nat" where
  "columnWidth env cells =
     (case mapE (cellLength env) cells of
        Inl e \<Rightarrow> Inl e
      | Inr ls \<Rightarrow>
          (let maxLength = fold (\<lambda>columnLength m. if columnLength > m then columnLength else m) ls 0
           in Inr (if maxLength < 10 then 10 else maxLength + 2)))"

text \<open>The columns of a sheet whose rows all have one cell per field.\<close>

definition sheetColumns :: "nat \<Rightarrow> jsval list list \<Rightarrow> jsval list list" where
  "sheetColumns n rows = map (\<lambda>i. map (\<lambda>row. row ! i) rows) [0..<n]"

definition buildWorkbook ::
  "env \<Rightarrow> jsval list \<Rightarrow> string list \<Rightarrow> ExportDataType \<Rightarrow> js_error + workbook" where
  "buildWorkbook env data flds dataType =
     (case mapE (excelRow env flds) data of
        Inl e \<Rightarrow> Inl e
      | Inr dataRows \<Rightarrow>
          (let rows = map (JStr \<circ> headerLabel) flds # dataRows
           in case mapE (columnWidth env) (sheetColumns (length flds) rows) of
                Inl e \<Rightarrow> Inl e
              | Inr widths \<Rightarrow>
                  Inr \<lparr>sheetName = dataTypeStr dataType, sheetRows = rows, headerBold = True,
                       headerFill = ''FFE0E0E0'', columnWidths = widths\<rparr>))"

definition exportToExcel ::
  "env \<Rightarrow> jsval list \<Rightarrow> string list \<Rightarrow> ExportDataType \<Rightarrow> world \<Rightarrow> (js_error + string) \<times> world" where
  "exportToExcel env data flds dataType w =
     (case buildWorkbook env data flds dataType of
        Inl e \<Rightarrow> (Inl (ApiError (''Failed to export data to Excel: '' @ message e) 500), w)
      | Inr wb \<Rightarrow>
          (let (exportDir, w1) = ensureExportDirectory w;
               filename = generateFilename env dataType EXCEL w1;
               filePath = pathJoin exportDir filename;
               (r, w2) = writeDocument filePath (XlsxFile wb) w1
           in case r of
                Inl e \<Rightarrow> (Inl (ApiError (''Failed to export data to Excel: '' @ message e) 500), w2)
              | Inr u \<Rightarrow> (Inr filePath, w2)))"

subsection \<open>Paginated document\<close>

abbreviation tableTop :: int where "tableTop \<equiv> 150"
abbreviation tableLeft :: int where "tableLeft \<equiv> 50"
abbreviation cellPadding :: int where "cellPadding \<equiv> 5"
abbreviation maxWidth :: int where "maxWidth \<equiv> 500"

text \<open>\<^verbatim>\<open>Math.floor(maxWidth / totalColumns)\<close>; with no column the width is never used.\<close>

definition equalWidth :: "string list \<Rightarrow> int" where
  "equalWidth flds = maxWidth div int (length flds)"

text \<open>The header band: one filled rectangle and one label per field, at \<open>tableTop\<close>.\<close>

fun headerOps :: "int \<Rightarrow> int \<Rightarrow> string list \<Rightarrow> pdf_op list" where
  "headerOps cw currentLeft [] = []"
| "headerOps cw currentLeft (field # flds) =
     [Rect currentLeft tableTop cw 30, FillAndStroke ''#e0e0e0'' ''#000000'', FillColor ''#000000'',
      TextAt (headerLabel field) (currentLeft + cellPadding) (tableTop + cellPadding) None]
     @ headerOps cw (currentLeft + cw) flds"

text \<open>\<^verbatim>\<open>value !== null && value !== undefined ? value.toString() : ""\<close>.\<close>

definition displayValue :: "env \<Rightarrow> jsval \<Rightarrow> js_error + string" where
  "displayValue env v = (if v \<noteq> JNull \<and> v \<noteq> JUndefined then toString env v else Inr [])"

text \<open>The cells of one data row, at \<open>currentTop\<close>.\<close>

fun cellOps :: "env \<Rightarrow> jsval \<Rightarrow> nat \<Rightarrow> int \<Rightarrow> int \<Rightarrow> int \<Rightarrow> string list \<Rightarrow> js_error + pdf_op list" where
  "cellOps env item rowIndex currentTop cw currentLeft [] = Inr []"
| "cellOps env item rowIndex currentTop cw currentLeft (field # flds) =
     (case project env item field of
        Inl e \<Rightarrow> Inl e
      | Inr v \<Rightarrow>
          (case displayValue env v of
             Inl e \<Rightarrow> Inl e
           | Inr text \<Rightarrow>
               (case cellOps env item rowIndex currentTop cw (currentLeft + cw) flds of
                  Inl e \<Rightarrow> Inl e
                | Inr rest \<Rightarrow>
                    Inr ([Rect currentLeft currentTop cw 25,
                          FillAndStroke (if rowIndex mod 2 = 0 then ''#ffffff'' else ''#f9f9f9'') ''#000000'',
                          FillColor ''#000000'',
                          TextAt text (currentLeft + cellPadding) (currentTop + cellPadding)
                            (Some (cw - cellPadding * 2, 25 - cellPadding * 2))] @ rest))))"

text \<open>
  The loop over the rows: after each row \<open>currentTop\<close> moves down by 25, and
  \<^verbatim>\<open>if (currentTop > doc.page.height - 100) { doc.addPage(); currentTop = 50 }\<close>.
\<close>

fun rowOps :: "env \<Rightarrow> string list \<Rightarrow> int \<Rightarrow> nat \<Rightarrow> int \<Rightarrow> jsval list \<Rightarrow> js_error + pdf_op list" where
  "rowOps env flds cw rowIndex currentTop [] = Inr []"
| "rowOps env flds cw rowIndex currentTop (item # items) =
     (case cellOps env item rowIndex currentTop cw tableLeft flds of
        Inl e \<Rightarrow> Inl e
      | Inr cells \<Rightarrow>
          (if currentTop + 25 > pageHeight env - 100 then
             (case rowOps env flds cw (Suc rowIndex) 50 items of
                Inl e \<Rightarrow> Inl e
              | Inr rest \<Rightarrow> Inr (cells @ [AddPage] @ rest))
           else
             (case rowOps env flds cw (Suc rowIndex) (currentTop + 25) items of
                Inl e \<Rightarrow> Inl e
              | Inr rest \<Rightarrow> Inr (cells @ rest))))"

definition titleOps :: "env \<Rightarrow> string \<Rightarrow> world \<Rightarrow> pdf_op list" where
  "titleOps env title w =
     [FontSize 20, Text title ''center'', MoveDown 1,
      FontSize 10, Text (''Generated on: '' @ toLocaleString env (clock w)) ''center'', MoveDown 2]"

definition footerOps :: "jsval list \<Rightarrow> pdf_op list" where
  "footerOps data = [FontSize 10, Text (''Total Records: '' @ show_nat (length data)) ''right'']"

definition buildPdf :: "env \<Rightarrow> jsval list \<Rightarrow> string list \<Rightarrow> string \<Rightarrow> world \<Rightarrow> js_error + pdf_op list" where
  "buildPdf env data flds title w =
     (case rowOps env flds (equalWidth flds) 0 (tableTop + 30) data of
        Inl e \<Rightarrow> Inl e
      | Inr body \<Rightarrow>
          Inr (titleOps env title w @ [FontSize 12] @ headerOps (equalWidth flds) tableLeft flds
               @ body @ footerOps data))"

text \<open>
  \<^verbatim>\<open>exportToPdf\<close>: the write stream is opened on the final path before the document is
  drawn; the promise resolves when the stream has finished and rejects on its error.
\<close>

definition exportToPdf ::
  "env \<Rightarrow> jsval list \<Rightarrow> string list \<Rightarrow> ExportDataType \<Rightarrow> string \<Rightarrow> world \<Rightarrow> (js_error + string) \<times> world" where
  "exportToPdf env data flds dataType title w =
     (let (exportDir, w1) = ensureExportDirectory w;
          filename = generateFilename env dataType PDF w1;
          filePath = pathJoin exportDir filename;
          w2 = w1\<lparr>files := (files w1)(filePath \<mapsto> Truncated)\<rparr>
      in case buildPdf env data flds title w2 of
           Inl e \<Rightarrow> (Inl (ApiError (''Failed to export data to PDF: '' @ message e) 500), w2)
         | Inr ops \<Rightarrow>
             (let (r, w3) = writeDocument filePath (PdfFile ops) w2
              in case r of
                   Inl e \<Rightarrow> (Inl (ApiError (''Failed to export data to PDF: '' @ message e) 500), w3)
                 | Inr u \<Rightarrow> (Inr filePath, w3)))"

subsection \<open>Structured dump\<close>

definition exportToJson ::
  "env \<Rightarrow> jsval list \<Rightarrow> ExportDataType \<Rightarrow> world \<Rightarrow> (js_error + string) \<times> world" where
  "exportToJson env data dataType w =
     (let (exportDir, w1) = ensureExportDirectory w;
          filename = generateFilename env dataType JSON w1;
          filePath = pathJoin exportDir filename;
          (r, w2) = writeFileSync filePath (jsonStringify env data) w1
      in case r of
           Inl e \<Rightarrow> (Inl (ApiError (''Failed to export data to JSON: '' @ message e) 500), w2)
         | Inr u \<Rightarrow> (Inr filePath, w2))"

subsection \<open>Dispatch on the format\<close>

text \<open>
  Every export function ends with the same \<^verbatim>\<open>switch (format)\<close> over the rows it has
  formatted, its field list, its data type and its report title; the \<^verbatim>\<open>default\<close>
  branch throws \<^verbatim>\<open>ApiError("Unsupported export format: ...", 400)\<close>.
\<close>

definition switchFormat ::
  "env \<Rightarrow> string \<Rightarrow> jsval list \<Rightarrow> string list \<Rightarrow> ExportDataType \<Rightarrow> string \<Rightarrow> world
     \<Rightarrow> (js_error + string) \<times> world" where
  "switchFormat env format formatted flds dataType title w =
     (if format = CSV then exportToCsv env formatted flds dataType w
      else if format = EXCEL then exportToExcel env formatted flds dataType w
      else if format = PDF then exportToPdf env formatted flds dataType title w
      else if format = JSON then exportToJson env formatted dataType w
      else (Inl (ApiError (''Unsupported export format: '' @ format) 400), w))"

section \<open>Data source\<close>

text \<open>
  The entities as the queries of the service return them, with the relations each
  query includes. A nullable column or relation is an \<open>option\<close>. Decimal columns are
  rationals.
\<close>

record order_user =
  u_email :: string
  u_firstName :: string
  u_lastName :: string

record address =
  a_street :: string
  a_city :: string
  a_state :: string
  a_postalCode :: string
  a_country :: string

text \<open>An order item with the name of its product, if it has a product.\<close>

record order_item =
  i_productName :: "string option"
  i_quantity :: int

record order =
  o_id :: string
  o_orderNumber :: "string option"
  o_user :: "order_user option"
  o_status :: string
  o_paymentStatus :: string
  o_totalAmount :: rat
  o_subtotalAmount :: rat
  o_taxAmount :: rat
  o_shippingAmount :: rat
  o_discountAmount :: "rat option"
  o_shippingAddress :: "address option"
  o_paymentMethod :: "string option"
  o_createdAt :: int
  o_items :: "order_item list"

record product =
  p_id :: string
  p_name :: string
  p_sku :: string
  p_category :: "string option"
  p_vendor :: "string option"
  p_price :: rat
  p_compareAtPrice :: "rat option"
  p_quantity :: int
  p_isFeatured :: bool
  p_isActive :: bool
  p_reviews :: "int list"
  p_createdAt :: int
  p_updatedAt :: int

text \<open>A customer with the total amount and status of each of their orders.\<close>

record customer =
  c_id :: string
  c_email :: string
  c_firstName :: string
  c_lastName :: string
  c_phone :: "string option"
  c_country :: "string option"
  c_isActive :: bool
  c_orders :: "(rat \<times> string) list"
  c_loyaltyPoints :: "int option"
  c_createdAt :: int
  c_lastLoginAt :: "int option"
  c_addresses :: "address list"

text \<open>A vendor with the prices of its products.\<close>

record vendor =
  v_id :: string
  v_businessName :: string
  v_contactEmail :: string
  v_contactPhone :: "string option"
  v_status :: string
  v_commissionRate :: rat
  v_products :: "rat list"
  v_createdAt :: int
  v_updatedAt :: int

subsection \<open>Queries\<close>

text \<open>A filter on one column: \<^verbatim>\<open>{ gte, lte, gt }\<close>, each bound optional.\<close>

record range =
  gte :: "jsval option"
  lte :: "jsval option"
  gt :: "jsval option"

definition noBound :: range where
  "noBound = \<lparr>gte = None, lte = None, gt = None\<rparr>"

record order_where =
  ow_createdAt :: "range option"
  ow_status :: "jsval option"
  ow_paymentStatus :: "jsval option"

record product_where =
  pw_categoryId :: "jsval option"
  pw_vendorId :: "jsval option"
  pw_price :: "range option"
  pw_quantity :: "range option"
  pw_isFeatured :: "bool option"
  pw_isActive :: "bool option"

record user_where =
  uw_role :: string
  uw_createdAt :: "range option"
  uw_isActive :: "bool option"

record vendor_where =
  vw_status :: "jsval option"
  vw_createdAt :: "range option"

text \<open>
  The database client. \<^verbatim>\<open>findMany\<close> is the client library's: each is a parameter,
  taking the \<^verbatim>\<open>where\<close> clause and the \<^verbatim>\<open>orderBy\<close> column and direction, and answering
  with rows or an exception. \<open>orderTable\<close> is the \<^verbatim>\<open>"Order"\<close> table that the raw
  SQL of the sales export reads.
\<close>

record datasource =
  orderFindMany :: "order_where \<Rightarrow> string \<times> string \<Rightarrow> js_error + order list"
  productFindMany :: "product_where \<Rightarrow> string \<times> string \<Rightarrow> js_error + product list"
  userFindMany :: "user_where \<Rightarrow> string \<times> string \<Rightarrow> js_error + customer list"
  vendorFindMany :: "vendor_where \<Rightarrow> string \<times> string \<Rightarrow> js_error + vendor list"
  orderTable :: "order list"

text \<open>A filter set is \<^verbatim>\<open>Record<string, any>\<close>: \<open>fl k\<close> is \<^verbatim>\<open>filters.k\<close>, \<^verbatim>\<open>undefined\<close>
  for a key that is not there.\<close>

type_synonym filters = "string \<Rightarrow> jsval"

text \<open>\<^verbatim>\<open>new Date(v)\<close>.\<close>

definition newDate :: "env \<Rightarrow> jsval \<Rightarrow> jsval" where
  "newDate env v = JDate (parseDate env v)"

text \<open>The date range of the orders, customers and vendors exports:
  \<^verbatim>\<open>if (filters.startDate && filters.endDate) where.createdAt = { gte: ..., lte: ... }\<close>.\<close>

definition dateRange :: "env \<Rightarrow> filters \<Rightarrow> range option" where
  "dateRange env fl =
     (if truthy (fl ''startDate'') \<and> truthy (fl ''endDate'')
      then Some \<lparr>gte = Some (newDate env (fl ''startDate'')),
                 lte = Some (newDate env (fl ''endDate'')), gt = None\<rparr>
      else None)"

text \<open>\<^verbatim>\<open>if (filters.k) where.k = filters.k\<close>.\<close>

definition whenTruthy :: "jsval \<Rightarrow> jsval option" where
  "whenTruthy v = (if truthy v then Some v else None)"

text \<open>\<^verbatim>\<open>if (filters.k !== undefined) where.c = filters.k === "true"\<close>.\<close>

definition flag :: "jsval \<Rightarrow> bool option" where
  "flag v = (if v \<noteq> JUndefined then Some (v = JStr ''true'') else None)"

text \<open>\<^verbatim>\<open>filters.inStock === "true" ? { gt: 0 } : { lte: 0 }\<close>.\<close>

definition inStockRange :: "jsval \<Rightarrow> range" where
  "inStockRange v =
     (if v = JStr ''true'' then \<lparr>gte = None, lte = None, gt = Some (JNum 0)\<rparr>
      else \<lparr>gte = None, lte = Some (JNum 0), gt = None\<rparr>)"

definition ordersWhere :: "env \<Rightarrow> filters \<Rightarrow> order_where" where
  "ordersWhere env fl =
     \<lparr>ow_createdAt = dateRange env fl,
      ow_status = whenTruthy (fl ''status''),
      ow_paymentStatus = whenTruthy (fl ''paymentStatus'')\<rparr>"

text \<open>The price range of the products export: both bounds, the lower one alone, or the
  upper one alone, each bound counting when its filter is truthy.\<close>

definition priceRange :: "env \<Rightarrow> filters \<Rightarrow> range option" where
  "priceRange env fl =
     (if truthy (fl ''minPrice'') \<and> truthy (fl ''maxPrice'')
      then Some \<lparr>gte = Some (Number env (fl ''minPrice'')),
                 lte = Some (Number env (fl ''maxPrice'')), gt = None\<rparr>
      else if truthy (fl ''minPrice'')
      then Some \<lparr>gte = Some (Number env (fl ''minPrice'')), lte = None, gt = None\<rparr>
      else if truthy (fl ''maxPrice'')
      then Some \<lparr>gte = None, lte = Some (Number env (fl ''maxPrice'')), gt = None\<rparr>
      else None)"

definition productsWhere :: "env \<Rightarrow> filters \<Rightarrow> product_where" where
  "productsWhere env fl =
     \<lparr>pw_categoryId = whenTruthy (fl ''categoryId''),
      pw_vendorId = whenTruthy (fl ''vendorId''),
      pw_price = priceRange env fl,
      pw_quantity = (if fl ''inStock'' \<noteq> JUndefined then Some (inStockRange (fl ''inStock'')) else None),
      pw_isFeatured = flag (fl ''featured''),
      pw_isActive = flag (fl ''active'')\<rparr>"

definition customersWhere :: "env \<Rightarrow> filters \<Rightarrow> user_where" where
  "customersWhere env fl =
     \<lparr>uw_role = ''CUSTOMER'',
      uw_createdAt = dateRange env fl,
      uw_isActive = flag (fl ''isActive'')\<rparr>"

text \<open>
  The quantity filter of the inventory export, three assignments in a row:
  \<^verbatim>\<open>where.quantity = { gte: Number(filters.minQuantity) }\<close>, then
  \<^verbatim>\<open>where.quantity = { ...where.quantity, lte: Number(filters.maxQuantity) }\<close>, then the
  \<^verbatim>\<open>inStock\<close> filter, which assigns a fresh object.
\<close>

definition quantityAfterMin :: "env \<Rightarrow> filters \<Rightarrow> range option" where
  "quantityAfterMin env fl =
     (if fl ''minQuantity'' \<noteq> JUndefined
      then Some \<lparr>gte = Some (Number env (fl ''minQuantity'')), lte = None, gt = None\<rparr>
      else None)"

definition quantityAfterMax :: "env \<Rightarrow> filters \<Rightarrow> range option" where
  "quantityAfterMax env fl =
     (if fl ''maxQuantity'' \<noteq> JUndefined
      then Some ((case quantityAfterMin env fl of None \<Rightarrow> noBound | Some r \<Rightarrow> r)
                  \<lparr>lte := Some (Number env (fl ''maxQuantity''))\<rparr>)
      else quantityAfterMin env fl)"

definition quantityRange :: "env \<Rightarrow> filters \<Rightarrow> range option" where
  "quantityRange env fl =
     (if fl ''inStock'' \<noteq> JUndefined then Some (inStockRange (fl ''inStock''))
      else quantityAfterMax env fl)"

definition inventoryWhere :: "env \<Rightarrow> filters \<Rightarrow> product_where" where
  "inventoryWhere env fl =
     \<lparr>pw_categoryId = whenTruthy (fl ''categoryId''),
      pw_vendorId = whenTruthy (fl ''vendorId''),
      pw_price = None,
      pw_quantity = quantityRange env fl,
      pw_isFeatured = None,
      pw_isActive = None\<rparr>"

definition vendorsWhere :: "env \<Rightarrow> filters \<Rightarrow> vendor_where" where
  "vendorsWhere env fl =
     \<lparr>vw_status = whenTruthy (fl ''status''),
      vw_createdAt = dateRange env fl\<rparr>"

section \<open>Dataset assemblers\<close>

text \<open>\<^verbatim>\<open>s || d\<close> on a nullable string: the default for \<^verbatim>\<open>null\<close> and for the empty string.\<close>

definition strOr :: "string option \<Rightarrow> string \<Rightarrow> string" where
  "strOr s d = (case s of None \<Rightarrow> d | Some x \<Rightarrow> if x \<noteq> [] then x else d)"

text \<open>A nullable decimal column as a value.\<close>

definition nullable :: "rat option \<Rightarrow> jsval" where
  "nullable x = (case x of None \<Rightarrow> JNull | Some n \<Rightarrow> JNum n)"

text \<open>The query is sent: one more call of the data source.\<close>

definition queried :: "world \<Rightarrow> world" where
  "queried w = w\<lparr>dbCalls := dbCalls w + 1\<rparr>"

subsection \<open>Orders\<close>

definition itemText :: "order_item \<Rightarrow> string" where
  "itemText item = strOr (i_productName item) ''Unknown'' @ '' ('' @ show_int (i_quantity item) @ '')''"

definition formatOrder :: "env \<Rightarrow> order \<Rightarrow> jsval" where
  "formatOrder env order = JObj
     [(''id'', JStr (o_id order)),
      (''orderNumber'',
         JStr (strOr (o_orderNumber order) (toUpperCase (drop (length (o_id order) - 8) (o_id order))))),
      (''customerName'',
         JStr (case o_user order of Some u \<Rightarrow> u_firstName u @ '' '' @ u_lastName u | None \<Rightarrow> ''N/A'')),
      (''customerEmail'', JStr (case o_user order of Some u \<Rightarrow> u_email u | None \<Rightarrow> ''N/A'')),
      (''status'', JStr (o_status order)),
      (''paymentStatus'', JStr (o_paymentStatus order)),
      (''totalAmount'', Number env (JNum (o_totalAmount order))),
      (''subtotalAmount'', Number env (JNum (o_subtotalAmount order))),
      (''taxAmount'', Number env (JNum (o_taxAmount order))),
      (''shippingAmount'', Number env (JNum (o_shippingAmount order))),
      (''discountAmount'', Number env (jsOr (nullable (o_discountAmount order)) (JNum 0))),
      (''shippingAddress'',
         JStr (case o_shippingAddress order of
                 Some a \<Rightarrow> a_street a @ '', '' @ a_city a @ '', '' @ a_state a @ '' '' @ a_postalCode a
                             @ '', '' @ a_country a
               | None \<Rightarrow> ''N/A'')),
      (''paymentMethod'', (case o_paymentMethod order of None \<Rightarrow> JNull | Some m \<Rightarrow> JStr m)),
      (''createdAt'', JStr (toLocaleString env (o_createdAt order))),
      (''itemCount'', JNum (of_nat (length (o_items order)))),
      (''items'', JStr (join ''; '' (map itemText (o_items order))))]"

definition ordersFields :: "string list" where
  "ordersFields =
     [''id'', ''orderNumber'', ''customerName'', ''customerEmail'', ''status'', ''paymentStatus'',
      ''totalAmount'', ''subtotalAmount'', ''taxAmount'', ''shippingAmount'', ''discountAmount'',
      ''shippingAddress'', ''paymentMethod'', ''createdAt'', ''itemCount'', ''items'']"

definition exportOrders ::
  "env \<Rightarrow> datasource \<Rightarrow> string \<Rightarrow> filters \<Rightarrow> world \<Rightarrow> (js_error + string) \<times> world" where
  "exportOrders env ds format fl w =
     (case orderFindMany ds (ordersWhere env fl) (''createdAt'', ''desc'') of
        Inl e \<Rightarrow> (Inl e, queried w)
      | Inr orders \<Rightarrow>
          switchFormat env format (map (formatOrder env) orders) ordersFields ORDERS
            ''Orders Report'' (queried w))"

subsection \<open>Products\<close>

definition averageRating :: "int list \<Rightarrow> string" where
  "averageRating reviews =
     (if length reviews > 0
      then toFixed (JNum (of_int (fold (\<lambda>rating sum. sum + rating) reviews 0) / of_nat (length reviews)))
      else ''0.00'')"

definition yesNo :: "bool \<Rightarrow> string" where
  "yesNo b = (if b then ''Yes'' else ''No'')"

definition formatProduct :: "env \<Rightarrow> product \<Rightarrow> jsval" where
  "formatProduct env product = JObj
     [(''id'', JStr (p_id product)),
      (''name'', JStr (p_name product)),
      (''sku'', JStr (p_sku product)),
      (''category'', JStr (case p_category product of Some n \<Rightarrow> n | None \<Rightarrow> ''N/A'')),
      (''vendor'', JStr (case p_vendor product of Some n \<Rightarrow> n | None \<Rightarrow> ''N/A'')),
      (''price'', Number env (JNum (p_price product))),
      (''compareAtPrice'', Number env (jsOr (nullable (p_compareAtPrice product)) (JNum 0))),
      (''quantity'', JNum (of_int (p_quantity product))),
      (''inStock'', JStr (yesNo (p_quantity product > 0))),
      (''featured'', JStr (yesNo (p_isFeatured product))),
      (''active'', JStr (yesNo (p_isActive product))),
      (''averageRating'', JStr (averageRating (p_reviews product))),
      (''reviewCount'', JNum (of_nat (length (p_reviews product)))),
      (''createdAt'', JStr (toLocaleString env (p_createdAt product))),
      (''updatedAt'', JStr (toLocaleString env (p_updatedAt product)))]"

definition productsFields :: "string list" where
  "productsFields =
     [''id'', ''name'', ''sku'', ''category'', ''vendor'', ''price'', ''compareAtPrice'', ''quantity'',
      ''inStock'', ''featured'', ''active'', ''averageRating'', ''reviewCount'', ''createdAt'',
      ''updatedAt'']"

definition exportProducts ::
  "env \<Rightarrow> datasource \<Rightarrow> string \<Rightarrow> filters \<Rightarrow> world \<Rightarrow> (js_error + string) \<times> world" where
  "exportProducts env ds format fl w =
     (case productFindMany ds (productsWhere env fl) (''name'', ''asc'') of
        Inl e \<Rightarrow> (Inl e, queried w)
      | Inr products \<Rightarrow>
          switchFormat env format (map (formatProduct env) products) productsFields PRODUCTS
            ''Products Report'' (queried w))"

subsection \<open>Customers\<close>

definition completedOrders :: "(rat \<times> string) list \<Rightarrow> (rat \<times> string) list" where
  "completedOrders orders =
     filter (\<lambda>(totalAmount, status). status = ''DELIVERED'' \<or> status = ''SHIPPED'') orders"

definition totalSpent :: "customer \<Rightarrow> rat" where
  "totalSpent customer =
     fold (\<lambda>(totalAmount, status) sum. sum + totalAmount) (completedOrders (c_orders customer)) 0"

definition orderCount :: "customer \<Rightarrow> nat" where
  "orderCount customer = length (completedOrders (c_orders customer))"

definition averageOrderValue :: "customer \<Rightarrow> rat" where
  "averageOrderValue customer =
     (if orderCount customer > 0 then totalSpent customer / of_nat (orderCount customer) else 0)"

definition formatCustomer :: "env \<Rightarrow> customer \<Rightarrow> jsval" where
  "formatCustomer env customer = JObj
     [(''id'', JStr (c_id customer)),
      (''email'', JStr (c_email customer)),
      (''firstName'', JStr (c_firstName customer)),
      (''lastName'', JStr (c_lastName customer)),
      (''fullName'', JStr (c_firstName customer @ '' '' @ c_lastName customer)),
      (''phone'', JStr (strOr (c_phone customer) ''N/A'')),
      (''country'', JStr (strOr (c_country customer) ''N/A'')),
      (''isActive'', JStr (yesNo (c_isActive customer))),
      (''orderCount'', JNum (of_nat (orderCount customer))),
      (''totalSpent'', JStr (toFixed (JNum (totalSpent customer)))),
      (''averageOrderValue'', JStr (toFixed (JNum (averageOrderValue customer)))),
      (''loyaltyPoints'',
         jsOr (case c_loyaltyPoints customer of None \<Rightarrow> JNull | Some n \<Rightarrow> JNum (of_int n)) (JNum 0)),
      (''createdAt'', JStr (toLocaleString env (c_createdAt customer))),
      (''lastLoginAt'',
         JStr (case c_lastLoginAt customer of Some t \<Rightarrow> toLocaleString env t | None \<Rightarrow> ''Never'')),
      (''addressCount'', JNum (of_nat (length (c_addresses customer))))]"

definition customersFields :: "string list" where
  "customersFields =
     [''id'', ''email'', ''fullName'', ''firstName'', ''lastName'', ''phone'', ''country'', ''isActive'',
      ''orderCount'', ''totalSpent'', ''averageOrderValue'', ''loyaltyPoints'', ''createdAt'',
      ''lastLoginAt'', ''addressCount'']"

definition exportCustomers ::
  "env \<Rightarrow> datasource \<Rightarrow> string \<Rightarrow> filters \<Rightarrow> world \<Rightarrow> (js_error + string) \<times> world" where
  "exportCustomers env ds format fl w =
     (case userFindMany ds (customersWhere env fl) (''lastName'', ''asc'') of
        Inl e \<Rightarrow> (Inl e, queried w)
      | Inr customers \<Rightarrow>
          switchFormat env format (map (formatCustomer env) customers) customersFields CUSTOMERS
            ''Customers Report'' (queried w))"

subsection \<open>Inventory\<close>

definition stockStatus :: "int \<Rightarrow> string" where
  "stockStatus quantity =
     (if quantity \<le> 0 then ''Out of Stock''
      else if quantity \<le> 5 then ''Low Stock''
      else if quantity \<le> 20 then ''Medium Stock''
      else ''Good Stock'')"

definition formatInventory :: "env \<Rightarrow> product \<Rightarrow> jsval" where
  "formatInventory env product = JObj
     [(''id'', JStr (p_id product)),
      (''sku'', JStr (p_sku product)),
      (''name'', JStr (p_name product)),
      (''category'', JStr (case p_category product of Some n \<Rightarrow> n | None \<Rightarrow> ''N/A'')),
      (''vendor'', JStr (case p_vendor product of Some n \<Rightarrow> n | None \<Rightarrow> ''N/A'')),
      (''quantity'', JNum (of_int (p_quantity product))),
      (''price'', Number env (JNum (p_price product))),
      (''totalValue'', JStr (toFixed (JNum (of_int (p_quantity product) * p_price product)))),
      (''status'', JStr (stockStatus (p_quantity product))),
      (''lastUpdated'', JStr (toLocaleString env (p_updatedAt product)))]"

definition inventoryFields :: "string list" where
  "inventoryFields =
     [''id'', ''sku'', ''name'', ''category'', ''vendor'', ''quantity'', ''price'', ''totalValue'',
      ''status'', ''lastUpdated'']"

definition exportInventory ::
  "env \<Rightarrow> datasource \<Rightarrow> string \<Rightarrow> filters \<Rightarrow> world \<Rightarrow> (js_error + string) \<times> world" where
  "exportInventory env ds format fl w =
     (case productFindMany ds (inventoryWhere env fl) (''quantity'', ''asc'') of
        Inl e \<Rightarrow> (Inl e, queried w)
      | Inr products \<Rightarrow>
          switchFormat env format (map (formatInventory env) products) inventoryFields INVENTORY
            ''Inventory Report'' (queried w))"

subsection \<open>Vendors\<close>

definition formatVendor :: "env \<Rightarrow> vendor \<Rightarrow> jsval" where
  "formatVendor env vendor = JObj
     [(''id'', JStr (v_id vendor)),
      (''businessName'', JStr (v_businessName vendor)),
      (''contactEmail'', JStr (v_contactEmail vendor)),
      (''contactPhone'', JStr (strOr (v_contactPhone vendor) ''N/A'')),
      (''status'', JStr (v_status vendor)),
      (''commissionRate'', Number env (JNum (v_commissionRate vendor))),
      (''totalProducts'', JNum (of_nat (length (v_products vendor)))),
      (''totalValue'', JStr (toFixed (JNum (fold (\<lambda>price sum. sum + price) (v_products vendor) 0)))),
      (''createdAt'', JStr (toLocaleString env (v_createdAt vendor))),
      (''updatedAt'', JStr (toLocaleString env (v_updatedAt vendor)))]"

definition vendorsFields :: "string list" where
  "vendorsFields =
     [''id'', ''businessName'', ''contactEmail'', ''contactPhone'', ''status'', ''commissionRate'',
      ''totalProducts'', ''totalValue'', ''createdAt'', ''updatedAt'']"

definition exportVendors ::
  "env \<Rightarrow> datasource \<Rightarrow> string \<Rightarrow> filters \<Rightarrow> world \<Rightarrow> (js_error + string) \<times> world" where
  "exportVendors env ds format fl w =
     (case vendorFindMany ds (vendorsWhere env fl) (''businessName'', ''asc'') of
        Inl e \<Rightarrow> (Inl e, queried w)
      | Inr vendors \<Rightarrow>
          switchFormat env format (map (formatVendor env) vendors) vendorsFields VENDORS
            ''Vendors Report'' (queried w))"

subsection \<open>Sales\<close>

text \<open>
  The window of the sales export: \<^verbatim>\<open>filters.endDate ? new Date(filters.endDate) : new Date()\<close>
  and \<^verbatim>\<open>filters.startDate ? new Date(filters.startDate) : new Date(endDate.getTime() - 30 * 24 * 60 * 60 * 1000)\<close>.
\<close>

definition salesEndDate :: "env \<Rightarrow> filters \<Rightarrow> world \<Rightarrow> jsval" where
  "salesEndDate env fl w =
     (if truthy (fl ''endDate'') then newDate env (fl ''endDate'') else JDate (Some (clock w)))"

definition getTime :: "jsval \<Rightarrow> int option" where
  "getTime d = (case d of JDate t \<Rightarrow> t | _ \<Rightarrow> None)"

definition salesStartDate :: "env \<Rightarrow> filters \<Rightarrow> world \<Rightarrow> jsval" where
  "salesStartDate env fl w =
     (if truthy (fl ''startDate'') then newDate env (fl ''startDate'')
      else JDate (map_option (\<lambda>t. t - 30 * 24 * 60 * 60 * 1000) (getTime (salesEndDate env fl w))))"

text \<open>\<^verbatim>\<open>filters.interval || "daily"\<close>, then the SQL expression that buckets
  \<^verbatim>\<open>"createdAt"\<close>.\<close>

definition salesInterval :: "filters \<Rightarrow> jsval" where
  "salesInterval fl = jsOr (fl ''interval'') (JStr ''daily'')"

definition salesDateFormat :: "filters \<Rightarrow> string" where
  "salesDateFormat fl =
     (if salesInterval fl = JStr ''hourly'' then ''DATE_TRUNC('hour', \"createdAt\")''
      else if salesInterval fl = JStr ''weekly'' then ''DATE_TRUNC('week', \"createdAt\")''
      else if salesInterval fl = JStr ''monthly'' then ''DATE_TRUNC('month', \"createdAt\")''
      else ''DATE(\"createdAt\")'')"

text \<open>
  The raw query, over the \<^verbatim>\<open>"Order"\<close> table. Its rows are the orders created in the
  window with status \<^verbatim>\<open>DELIVERED\<close> or \<^verbatim>\<open>SHIPPED\<close>, grouped by the bucket of
  \<^verbatim>\<open>"createdAt"\<close>; each group gives one row with the bucket, \<^verbatim>\<open>SUM("totalAmount")\<close>,
  \<^verbatim>\<open>COUNT(*)\<close>, \<^verbatim>\<open>AVG("totalAmount")\<close> and the sum over its orders of each order's
  summed item quantity; \<^verbatim>\<open>ORDER BY date ASC\<close>. An aggregate skips NULLs and is NULL
  when nothing is left; an order without an item has a NULL item quantity. A date
  that is invalid cannot be sent as a parameter.
\<close>

record bucket =
  b_date :: int
  b_sales :: jsval
  b_orders :: jsval
  b_avgordervalue :: jsval
  b_itemssold :: jsval

definition sqlDateParam :: "jsval \<Rightarrow> js_error + int" where
  "sqlDateParam v = (case getTime v of None \<Rightarrow> Inl (Error ''Invalid time value'') | Some t \<Rightarrow> Inr t)"

definition sqlSum :: "rat option list \<Rightarrow> jsval" where
  "sqlSum xs = (let ys = List.map_filter id xs in if ys = [] then JNull else JNum (sum_list ys))"

definition sqlAvg :: "rat option list \<Rightarrow> jsval" where
  "sqlAvg xs =
     (let ys = List.map_filter id xs
      in if ys = [] then JNull else JNum (sum_list ys / of_nat (length ys)))"

definition itemQuantity :: "order \<Rightarrow> rat option" where
  "itemQuantity order =
     (if o_items order = [] then None
      else Some (sum_list (map (\<lambda>item. of_int (i_quantity item)) (o_items order))))"

definition bucketOf :: "env \<Rightarrow> string \<Rightarrow> order \<Rightarrow> int" where
  "bucketOf env dateFormat order = dateTrunc env dateFormat (o_createdAt order)"

definition salesRow :: "env \<Rightarrow> string \<Rightarrow> order list \<Rightarrow> int \<Rightarrow> bucket" where
  "salesRow env dateFormat selected k =
     (let g = filter (\<lambda>order. bucketOf env dateFormat order = k) selected
      in \<lparr>b_date = k,
          b_sales = sqlSum (map (\<lambda>order. Some (o_totalAmount order)) g),
          b_orders = JNum (of_nat (length g)),
          b_avgordervalue = sqlAvg (map (\<lambda>order. Some (o_totalAmount order)) g),
          b_itemssold = sqlSum (map itemQuantity g)\<rparr>)"

definition salesQuery :: "env \<Rightarrow> string \<Rightarrow> jsval \<Rightarrow> jsval \<Rightarrow> order list \<Rightarrow> js_error + bucket list" where
  "salesQuery env dateFormat startDate endDate table =
     (case sqlDateParam startDate of
        Inl e \<Rightarrow> Inl e
      | Inr s \<Rightarrow>
          (case sqlDateParam endDate of
             Inl e \<Rightarrow> Inl e
           | Inr t \<Rightarrow>
               (let selected =
                      filter (\<lambda>order. o_createdAt order \<ge> s \<and> o_createdAt order \<le> t \<and>
                                       (o_status order = ''DELIVERED'' \<or> o_status order = ''SHIPPED''))
                        table
                in Inr (map (salesRow env dateFormat selected)
                          (sort (remdups (map (bucketOf env dateFormat) selected)))))))"

definition formatSale :: "env \<Rightarrow> bucket \<Rightarrow> jsval" where
  "formatSale env item = JObj
     [(''date'', JStr (toLocaleDateString env (b_date item))),
      (''sales'', JStr (toFixed (Number env (b_sales item)))),
      (''orders'', Number env (b_orders item)),
      (''avgOrderValue'', JStr (toFixed (Number env (b_avgordervalue item)))),
      (''itemsSold'', jsOr (Number env (b_itemssold item)) (JNum 0))]"

definition salesFields :: "string list" where
  "salesFields = [''date'', ''sales'', ''orders'', ''avgOrderValue'', ''itemsSold'']"

definition exportSales ::
  "env \<Rightarrow> datasource \<Rightarrow> string \<Rightarrow> filters \<Rightarrow> world \<Rightarrow> (js_error + string) \<times> world" where
  "exportSales env ds format fl w =
     (case salesQuery env (salesDateFormat fl) (salesStartDate env fl w) (salesEndDate env fl w)
             (orderTable ds) of
        Inl e \<Rightarrow> (Inl e, queried w)
      | Inr salesData \<Rightarrow>
          switchFormat env format (map (formatSale env) salesData) salesFields SALES
            ''Sales Report'' (queried w))"

section \<open>Observing an artifact\<close>

text \<open>
  The table an artifact holds: the text of a delimited-text or structured-dump file,
  the rows of a workbook's sheet (header row first), and for a paginated document
  the drawing operations of its table, that is all but the font sizes, the flowing
  text lines (title, generation time, footer) and the vertical moves.
\<close>

fun isTableOp :: "pdf_op \<Rightarrow> bool" where
  "isTableOp (Rect x y w h) = True"
| "isTableOp (FillAndStroke f s) = True"
| "isTableOp (FillColor c) = True"
| "isTableOp (TextAt t x y box) = True"
| "isTableOp AddPage = True"
| "isTableOp (FontSize n) = False"
| "isTableOp (Text t a) = False"
| "isTableOp (MoveDown n) = False"




text \<open>Where an export of \<open>dataType\<close> in \<open>format\<close> started in world \<open>w\<close> puts its
  file: the export directory joined with the generated file name.\<close>

definition stagedPath :: "env \<Rightarrow> ExportDataType \<Rightarrow> string \<Rightarrow> world \<Rightarrow> string" where
  "stagedPath env dataType format w =
     pathJoin (pathJoin (cwd w) ''exports'') (generateFilename env dataType format w)"

text \<open>The labels of a header band (a label is placed without a box).\<close>

fun headerTexts :: "pdf_op list \<Rightarrow> string list" where
  "headerTexts [] = []"
| "headerTexts (TextAt t x y None # ops) = t # headerTexts ops"
| "headerTexts (op # ops) = headerTexts ops"

text \<open>The texts of the data cells (a cell text is placed with a box), and the text a
  cell shows for a field of an item.\<close>

fun cellTexts :: "pdf_op list \<Rightarrow> string list" where
  "cellTexts [] = []"
| "cellTexts (TextAt t x y (Some box) # ops) = t # cellTexts ops"
| "cellTexts (op # ops) = cellTexts ops"

definition displayOf :: "env \<Rightarrow> jsval \<Rightarrow> string \<Rightarrow> string" where
  "displayOf env item field =
     (case project env item field of
        Inl e \<Rightarrow> []
      | Inr v \<Rightarrow> (case displayValue env v of Inl e \<Rightarrow> [] | Inr s \<Rightarrow> s))"

text \<open>The tops of the rectangles of the data rows (those of height 25; the header
  band is 30 high).\<close>

fun rowTops :: "pdf_op list \<Rightarrow> int list" where
  "rowTops [] = []"
| "rowTops (Rect x y w h # ops) = (if h = 25 then y # rowTops ops else rowTops ops)"
| "rowTops (op # ops) = rowTops ops"

text \<open>The pages of a document: the operations between page breaks.\<close>

fun pages :: "pdf_op list \<Rightarrow> pdf_op list list" where
  "pages [] = [[]]"
| "pages (AddPage # ops) = [] # pages ops"
| "pages (op # ops) = (case pages ops of [] \<Rightarrow> [[op]] | p # ps \<Rightarrow> (op # p) # ps)"

section \<open>Fixtures\<close>

text \<open>
  A stub environment and a stub data source for evaluating the model on concrete
  inputs: \<^verbatim>\<open>toString\<close> as the one inherited member, a fixed time stamp and local time, dates printed as their millisecond
  count, the parser
  joining the field names, a letter-size page (height 792), days as buckets.
\<close>

definition stubEnv :: env where
  "stubEnv =
     \<lparr>inherited =
        (\<lambda>obj k. if k = ''toString'' then Some (JFunction ''function toString() { [native code] }'')
                 else None),
      toISOString = (\<lambda>t. ''2024-01-15T10:30:00.000Z''),
      toLocaleString = (\<lambda>t. ''1/15/2024, 10:30:00 AM''),
      toLocaleDateString = show_int,
      parseDate = (\<lambda>v. case v of JNum n \<Rightarrow> Some \<lfloor>n\<rfloor> | _ \<Rightarrow> None),
      stringToNumber = (\<lambda>s. None),
      fractionToString = (\<lambda>n. ''0.5''),
      csvParse = (\<lambda>flds data. Inr (join '','' flds)),
      jsonStringify = (\<lambda>data. show_nat (length data)),
      pageHeight = 792,
      dateTrunc = (\<lambda>dateFormat t. t div 86400000 * 86400000)\<rparr>"

definition stubRow :: jsval where
  "stubRow = JObj [(''id'', JStr ''a'')]"

definition stubOrder :: order where
  "stubOrder =
     \<lparr>o_id = ''ord-0001'', o_orderNumber = None, o_user = None, o_status = ''DELIVERED'',
      o_paymentStatus = ''PAID'', o_totalAmount = 10, o_subtotalAmount = 8, o_taxAmount = 1,
      o_shippingAmount = 1, o_discountAmount = None, o_shippingAddress = None,
      o_paymentMethod = None, o_createdAt = 1500, o_items = []\<rparr>"

definition stubDs :: datasource where
  "stubDs =
     \<lparr>orderFindMany = (\<lambda>wh ob. Inr [stubOrder]),
      productFindMany = (\<lambda>wh ob. Inr []),
      userFindMany = (\<lambda>wh ob. Inr []),
      vendorFindMany = (\<lambda>wh ob. Inr []),
      orderTable = [stubOrder]\<rparr>"

text \<open>Two delivered orders on consecutive days, the later one first in the table.\<close>

definition stubTable :: "order list" where
  "stubTable = [stubOrder\<lparr>o_id := ''ord-0002'', o_createdAt := 86400005\<rparr>, stubOrder]"

definition noFilters :: filters where
  "noFilters = (\<lambda>k. JUndefined)"

definition world0 :: world where
  "world0 =
     \<lparr>clock = 2592001000, cwd = ''/srv'', dirs = [], files = Map.empty, dbCalls = 0,
      writeFault = None\<rparr>"

definition nullBucket :: bucket where
  "nullBucket = \<lparr>b_date = 0, b_sales = JNull, b_orders = JNum 0, b_avgordervalue = JNull, b_itemssold = JNull\<rparr>"

definition stubProduct :: product where
  "stubProduct =
     \<lparr>p_id = ''p1'', p_name = ''Case'', p_sku = ''SKU-1'', p_category = None, p_vendor = None,
      p_price = 20, p_compareAtPrice = None, p_quantity = 3, p_isFeatured = False, p_isActive = True,
      p_reviews = [], p_createdAt = 0, p_updatedAt = 0\<rparr>"

text \<open>A world whose file system fails after three characters, and an environment whose
  parser throws.\<close>

definition faultyWorld :: world where
  "faultyWorld = world0\<lparr>writeFault := Some (3, ''ENOSPC: no space left on device, write'')\<rparr>"

definition failingParser :: env where
  "failingParser = stubEnv\<lparr>csvParse := (\<lambda>flds data. Inl (Error ''Data should not be empty''))\<rparr>"



section \<open>Field projection never throws\<close>

lemma projStep_total: "\<exists>v. projStep env obj key = Inr v"
  by (cases obj) (simp_all add: projStep_def)

lemma reduceProj_total: "\<exists>v. reduceProj env acc ks = Inr v"
proof (induction ks arbitrary: acc)
  case Nil
  show ?case by simp
next
  case (Cons k ks)
  obtain v where "projStep env acc k = Inr v" using projStep_total by blast
  then show ?case using Cons.IH [of v] by simp
qed

lemma project_total: "\<exists>v. project env item path = Inr v"
  unfolding project_def by (rule reduceProj_total)

lemma reduceProj_null: "reduceProj env JNull ks = Inr JNull"
  by (induction ks) (simp_all add: projStep_def)

lemma reduceProj_falsy: "\<not> truthy obj \<Longrightarrow> reduceProj env obj (k # ks) = Inr JNull"
  by (simp add: projStep_def reduceProj_null)

section \<open>Staging: frame lemmas\<close>

lemma ensureExportDirectory_fst: "fst (ensureExportDirectory w) = pathJoin (cwd w) ''exports''"
  by (simp add: ensureExportDirectory_def Let_def)

lemma ensureExportDirectory_snd:
  "clock (snd (ensureExportDirectory w)) = clock w"
  "files (snd (ensureExportDirectory w)) = files w"
  "writeFault (snd (ensureExportDirectory w)) = writeFault w"
  "dbCalls (snd (ensureExportDirectory w)) = dbCalls w"
  "cwd (snd (ensureExportDirectory w)) = cwd w"
  by (simp_all add: ensureExportDirectory_def Let_def)

lemma generateFilename_ensure:
  "generateFilename env dt f (snd (ensureExportDirectory w)) = generateFilename env dt f w"
  by (simp add: generateFilename_def ensureExportDirectory_snd)

lemma stagedPath_queried: "stagedPath env dt f (queried w) = stagedPath env dt f w"
  by (simp add: stagedPath_def generateFilename_def queried_def)

section \<open>Loops that cannot throw\<close>

lemma mapE_Inr:
  "(\<And>x. x \<in> set xs \<Longrightarrow> f x = Inr (g x)) \<Longrightarrow> mapE f xs = Inr (map g xs)"
  by (induction xs) simp_all

lemma mapE_length: "mapE f xs = Inr ys \<Longrightarrow> length ys = length xs"
  by (induction xs arbitrary: ys) (auto split: sum.splits)

lemma excelRow_eq: "excelRow env flds item = Inr (map (cellOf env item) flds)"
proof -
  have "\<And>field. (case project env item field of Inl e \<Rightarrow> Inl e | Inr v \<Rightarrow> Inr (cellValue v))
          = Inr (cellOf env item field)"
  proof -
    fix field
    obtain v where "project env item field = Inr v" using project_total by blast
    then show "(case project env item field of Inl e \<Rightarrow> Inl e | Inr v \<Rightarrow> Inr (cellValue v))
          = Inr (cellOf env item field)" by (simp add: cellOf_def)
  qed
  then show ?thesis unfolding excelRow_def by (intro mapE_Inr) simp
qed

lemma toString_truthy: "truthy v \<Longrightarrow> \<exists>s. toString env v = Inr s"
  by (cases v) simp_all

lemma toString_defined: "v \<noteq> JNull \<Longrightarrow> v \<noteq> JUndefined \<Longrightarrow> \<exists>s. toString env v = Inr s"
  by (cases v) simp_all

lemma cellLength_total: "\<exists>n. cellLength env v = Inr n"
proof (cases "truthy v")
  case True
  then obtain s where "toString env v = Inr s" using toString_truthy by blast
  with True show ?thesis by (simp add: cellLength_def)
next
  case False
  then show ?thesis by (simp add: cellLength_def)
qed

lemma mapE_total: "(\<And>x. \<exists>y. f x = Inr y) \<Longrightarrow> \<exists>ys. mapE f xs = Inr ys"
proof (induction xs)
  case Nil
  show ?case by simp
next
  case (Cons x xs)
  obtain y where y: "f x = Inr y" using Cons.prems by blast
  obtain ys where ys: "mapE f xs = Inr ys" using Cons.IH Cons.prems by blast
  show ?case using y ys by simp
qed

lemma columnWidth_total: "\<exists>n. columnWidth env cells = Inr n"
proof -
  obtain ls where "mapE (cellLength env) cells = Inr ls"
    using mapE_total [of "cellLength env" cells] cellLength_total by blast
  then show ?thesis by (simp add: columnWidth_def Let_def)
qed

lemma buildWorkbook_rows:
  "\<exists>wb. buildWorkbook env data flds dt = Inr wb
        \<and> sheetRows wb = map (JStr \<circ> headerLabel) flds # map (\<lambda>item. map (cellOf env item) flds) data
        \<and> sheetName wb = dataTypeStr dt"
proof -
  have rows: "mapE (excelRow env flds) data = Inr (map (\<lambda>item. map (cellOf env item) flds) data)"
    by (intro mapE_Inr) (simp add: excelRow_eq)
  obtain ws where "mapE (columnWidth env)
        (sheetColumns (length flds) (map (JStr \<circ> headerLabel) flds # map (\<lambda>item. map (cellOf env item) flds) data)) = Inr ws"
    using mapE_total [of "columnWidth env"] columnWidth_total by blast
  with rows show ?thesis by (simp add: buildWorkbook_def Let_def)
qed

lemma displayValue_total: "\<exists>s. displayValue env v = Inr s"
proof (cases "v \<noteq> JNull \<and> v \<noteq> JUndefined")
  case True
  then obtain s where "toString env v = Inr s" using toString_defined by blast
  with True show ?thesis by (simp add: displayValue_def)
next
  case False
  then show ?thesis by (auto simp: displayValue_def)
qed

lemma cellOps_total: "\<exists>ops. cellOps env item i y0 cw left flds = Inr ops"
proof (induction flds arbitrary: left)
  case Nil
  show ?case by simp
next
  case (Cons f flds)
  obtain v where v: "project env item f = Inr v" using project_total by blast
  obtain s where s: "displayValue env v = Inr s" using displayValue_total by blast
  obtain rest where r: "cellOps env item i y0 cw (left + cw) flds = Inr rest" using Cons.IH by blast
  show ?case using v s r by simp
qed

lemma rowOps_total: "\<exists>ops. rowOps env flds cw i y0 data = Inr ops"
proof (induction data arbitrary: i y0)
  case Nil
  show ?case by simp
next
  case (Cons item items)
  obtain cells where c: "cellOps env item i y0 cw tableLeft flds = Inr cells"
    using cellOps_total by blast
  obtain r1 where r1: "rowOps env flds cw (Suc i) 50 items = Inr r1" using Cons.IH by blast
  obtain r2 where r2: "rowOps env flds cw (Suc i) (y0 + 25) items = Inr r2" using Cons.IH by blast
  show ?case using c r1 r2 by simp
qed

lemma buildPdf_total: "\<exists>ops. buildPdf env data flds title w = Inr ops"
proof -
  obtain body where "rowOps env flds (equalWidth flds) 0 (tableTop + 30) data = Inr body"
    using rowOps_total by blast
  then show ?thesis by (simp add: buildPdf_def)
qed

section \<open>What each renderer returns\<close>

lemma exportToCsv_ok:
  "csvParse env flds data = Inr csv \<Longrightarrow> writeFault w = None \<Longrightarrow>
   fst (exportToCsv env data flds dt w) = Inr (stagedPath env dt CSV w)
   \<and> files (snd (exportToCsv env data flds dt w)) (stagedPath env dt CSV w) = Some (TextFile csv)"
  by (simp add: exportToCsv_def stagedPath_def writeFileSync_def split_beta Let_def
        ensureExportDirectory_fst ensureExportDirectory_snd generateFilename_ensure)

lemma exportToJson_ok:
  "writeFault w = None \<Longrightarrow>
   fst (exportToJson env data dt w) = Inr (stagedPath env dt JSON w)
   \<and> files (snd (exportToJson env data dt w)) (stagedPath env dt JSON w) = Some (TextFile (jsonStringify env data))"
  by (simp add: exportToJson_def stagedPath_def writeFileSync_def split_beta Let_def
        ensureExportDirectory_fst ensureExportDirectory_snd generateFilename_ensure)

lemma exportToExcel_ok:
  assumes "writeFault w = None"
  shows "\<exists>wb. buildWorkbook env data flds dt = Inr wb
     \<and> fst (exportToExcel env data flds dt w) = Inr (stagedPath env dt EXCEL w)
     \<and> files (snd (exportToExcel env data flds dt w)) (stagedPath env dt EXCEL w) = Some (XlsxFile wb)"
proof -
  obtain wb where wb: "buildWorkbook env data flds dt = Inr wb" using buildWorkbook_rows by blast
  then show ?thesis using assms
    by (simp add: exportToExcel_def stagedPath_def writeDocument_def split_beta Let_def
        ensureExportDirectory_fst ensureExportDirectory_snd generateFilename_ensure)
qed

lemma buildPdf_files: "buildPdf env data flds title (w\<lparr>files := fs\<rparr>) = buildPdf env data flds title w"
  by (simp add: buildPdf_def titleOps_def split: sum.splits)

lemma buildPdf_ensure: "buildPdf env data flds title (snd (ensureExportDirectory w)) = buildPdf env data flds title w"
  by (simp add: buildPdf_def titleOps_def ensureExportDirectory_snd split: sum.splits)

lemma exportToPdf_ok:
  assumes "writeFault w = None"
  shows "\<exists>ops. buildPdf env data flds title w = Inr ops
     \<and> fst (exportToPdf env data flds dt title w) = Inr (stagedPath env dt PDF w)
     \<and> files (snd (exportToPdf env data flds dt title w)) (stagedPath env dt PDF w) = Some (PdfFile ops)"
proof -
  obtain ops where ops: "buildPdf env data flds title w = Inr ops" using buildPdf_total by blast
  then show ?thesis using assms
    by (simp add: exportToPdf_def stagedPath_def writeDocument_def split_beta Let_def buildPdf_files buildPdf_ensure
        ensureExportDirectory_fst ensureExportDirectory_snd generateFilename_ensure)
qed

section \<open>Outcome of each renderer\<close>




lemma filter_table_append: "filter isTableOp (a @ b) = filter isTableOp a @ filter isTableOp b"
  by simp



section \<open>File names\<close>

lemma exportToCsv_path:
  "fst (exportToCsv env data flds dt w) = Inr p \<Longrightarrow> p = stagedPath env dt CSV w"
  by (auto simp: exportToCsv_def stagedPath_def writeFileSync_def ensureExportDirectory_fst generateFilename_ensure
        split_beta Let_def split: sum.splits option.splits)

lemma exportToExcel_path:
  "fst (exportToExcel env data flds dt w) = Inr p \<Longrightarrow> p = stagedPath env dt EXCEL w"
  by (auto simp: exportToExcel_def stagedPath_def writeDocument_def ensureExportDirectory_fst generateFilename_ensure
        split_beta Let_def split: sum.splits option.splits)

lemma exportToPdf_path:
  "fst (exportToPdf env data flds dt title w) = Inr p \<Longrightarrow> p = stagedPath env dt PDF w"
  by (auto simp: exportToPdf_def stagedPath_def writeDocument_def ensureExportDirectory_fst generateFilename_ensure
        split_beta Let_def split: sum.splits option.splits)

lemma exportToJson_path:
  "fst (exportToJson env data dt w) = Inr p \<Longrightarrow> p = stagedPath env dt JSON w"
  by (auto simp: exportToJson_def stagedPath_def writeFileSync_def ensureExportDirectory_fst generateFilename_ensure
        split_beta Let_def split: sum.splits option.splits)

lemma switchFormat_path:
  "fst (switchFormat env format rows flds dt title w) = Inr p \<Longrightarrow>
     (format = CSV \<or> format = EXCEL \<or> format = PDF \<or> format = JSON) \<and> p = stagedPath env dt format w"
  unfolding switchFormat_def
  by (auto split: if_splits dest: exportToCsv_path exportToExcel_path exportToPdf_path exportToJson_path)

lemma switchFormat_queried_path:
  "fst (switchFormat env format rows flds dt title (queried w)) = Inr p \<Longrightarrow>
     (format = CSV \<or> format = EXCEL \<or> format = PDF \<or> format = JSON) \<and> p = stagedPath env dt format w"
  using switchFormat_path [of env format rows flds dt title "queried w" p]
  by (simp add: stagedPath_queried)

lemma exportOrders_path:
  "fst (exportOrders env ds format fl w) = Inr p \<Longrightarrow>
     (format = CSV \<or> format = EXCEL \<or> format = PDF \<or> format = JSON) \<and> p = stagedPath env ORDERS format w"
  unfolding exportOrders_def by (auto split: sum.splits dest: switchFormat_queried_path)

lemma exportProducts_path:
  "fst (exportProducts env ds format fl w) = Inr p \<Longrightarrow>
     (format = CSV \<or> format = EXCEL \<or> format = PDF \<or> format = JSON) \<and> p = stagedPath env PRODUCTS format w"
  unfolding exportProducts_def by (auto split: sum.splits dest: switchFormat_queried_path)

lemma exportCustomers_path:
  "fst (exportCustomers env ds format fl w) = Inr p \<Longrightarrow>
     (format = CSV \<or> format = EXCEL \<or> format = PDF \<or> format = JSON) \<and> p = stagedPath env CUSTOMERS format w"
  unfolding exportCustomers_def by (auto split: sum.splits dest: switchFormat_queried_path)

lemma exportSales_path:
  "fst (exportSales env ds format fl w) = Inr p \<Longrightarrow>
     (format = CSV \<or> format = EXCEL \<or> format = PDF \<or> format = JSON) \<and> p = stagedPath env SALES format w"
  unfolding exportSales_def by (auto split: sum.splits dest: switchFormat_queried_path)

lemma exportInventory_path:
  "fst (exportInventory env ds format fl w) = Inr p \<Longrightarrow>
     (format = CSV \<or> format = EXCEL \<or> format = PDF \<or> format = JSON) \<and> p = stagedPath env INVENTORY format w"
  unfolding exportInventory_def by (auto split: sum.splits dest: switchFormat_queried_path)

lemma exportVendors_path:
  "fst (exportVendors env ds format fl w) = Inr p \<Longrightarrow>
     (format = CSV \<or> format = EXCEL \<or> format = PDF \<or> format = JSON) \<and> p = stagedPath env VENDORS format w"
  unfolding exportVendors_def by (auto split: sum.splits dest: switchFormat_queried_path)

lemma replaceColonDot_safe:
  "length (replaceColonDot s) = length s"
  "CHR '':'' \<notin> set (replaceColonDot s)"
  "CHR ''.'' \<notin> set (replaceColonDot s)"
  by (auto simp: replaceColonDot_def)

lemma switchFormat_excel_ok:
  "writeFault w = None \<Longrightarrow> fst (switchFormat env EXCEL rows flds dt title w) = Inr (stagedPath env dt EXCEL w)"
  using exportToExcel_ok [of w env rows flds dt] by (auto simp: switchFormat_def)

lemma stub_world0: "writeFault world0 = None" "writeFault (queried world0) = None"
  by (simp_all add: world0_def queried_def)

lemma stub_paths:
  "stagedPath stubEnv ORDERS EXCEL world0 = ''/srv/exports/orders-export-2024-01-15T10-30-00-000Z.excel''"
  "stagedPath stubEnv PRODUCTS EXCEL world0 = ''/srv/exports/products-export-2024-01-15T10-30-00-000Z.excel''"
  "stagedPath stubEnv CUSTOMERS EXCEL world0 = ''/srv/exports/customers-export-2024-01-15T10-30-00-000Z.excel''"
  "stagedPath stubEnv SALES EXCEL world0 = ''/srv/exports/sales-export-2024-01-15T10-30-00-000Z.excel''"
  "stagedPath stubEnv INVENTORY EXCEL world0 = ''/srv/exports/inventory-export-2024-01-15T10-30-00-000Z.excel''"
  "stagedPath stubEnv VENDORS EXCEL world0 = ''/srv/exports/vendors-export-2024-01-15T10-30-00-000Z.excel''"
  "stagedPath stubEnv ORDERS CSV world0 = ''/srv/exports/orders-export-2024-01-15T10-30-00-000Z.csv''"
  "stagedPath stubEnv ORDERS PDF world0 = ''/srv/exports/orders-export-2024-01-15T10-30-00-000Z.pdf''"
  "stagedPath stubEnv ORDERS JSON world0 = ''/srv/exports/orders-export-2024-01-15T10-30-00-000Z.json''"
  by (simp_all add: stagedPath_def generateFilename_def pathJoin_def stubEnv_def world0_def replaceColonDot_def)

lemma stub_exports_excel:
  "fst (exportOrders stubEnv stubDs EXCEL noFilters world0) = Inr (stagedPath stubEnv ORDERS EXCEL world0)"
  "fst (exportProducts stubEnv stubDs EXCEL noFilters world0) = Inr (stagedPath stubEnv PRODUCTS EXCEL world0)"
  "fst (exportCustomers stubEnv stubDs EXCEL noFilters world0) = Inr (stagedPath stubEnv CUSTOMERS EXCEL world0)"
  "fst (exportInventory stubEnv stubDs EXCEL noFilters world0) = Inr (stagedPath stubEnv INVENTORY EXCEL world0)"
  "fst (exportVendors stubEnv stubDs EXCEL noFilters world0) = Inr (stagedPath stubEnv VENDORS EXCEL world0)"
  by (simp_all add: exportOrders_def exportProducts_def exportCustomers_def exportInventory_def exportVendors_def
        stubDs_def switchFormat_excel_ok stub_world0 stagedPath_queried)

lemma stub_sales_query:
  "\<exists>rows. salesQuery stubEnv (salesDateFormat noFilters) (salesStartDate stubEnv noFilters world0)
      (salesEndDate stubEnv noFilters world0) (orderTable stubDs) = Inr rows"
  by (simp add: salesQuery_def sqlDateParam_def getTime_def salesStartDate_def salesEndDate_def noFilters_def world0_def Let_def)

lemma stub_sales_excel:
  "fst (exportSales stubEnv stubDs EXCEL noFilters world0) = Inr (stagedPath stubEnv SALES EXCEL world0)"
  using stub_sales_query
  by (auto simp: exportSales_def switchFormat_excel_ok stub_world0 stagedPath_queried)

section \<open>Header labels and cell texts\<close>

lemma headerTexts_append: "headerTexts (a @ b) = headerTexts a @ headerTexts b"
  by (induction a rule: headerTexts.induct) simp_all

lemma cellTexts_append: "cellTexts (a @ b) = cellTexts a @ cellTexts b"
  by (induction a rule: cellTexts.induct) simp_all

lemma headerOps_texts:
  "headerTexts (headerOps cw left flds) = map headerLabel flds"
  "cellTexts (headerOps cw left flds) = []"
  by (induction flds arbitrary: left) simp_all

lemma cellOps_texts:
  "cellOps env item i y0 cw left flds = Inr ops \<Longrightarrow>
     cellTexts ops = map (displayOf env item) flds \<and> headerTexts ops = []"
proof (induction flds arbitrary: left ops)
  case Nil
  then show ?case by simp
next
  case (Cons f flds)
  then show ?case
    by (auto simp: displayOf_def split: sum.splits)
qed

lemma rowOps_texts:
  "rowOps env flds cw i y0 data = Inr ops \<Longrightarrow>
     cellTexts ops = concat (map (\<lambda>item. map (displayOf env item) flds) data) \<and> headerTexts ops = []"
proof (induction data arbitrary: i y0 ops)
  case Nil
  then show ?case by simp
next
  case (Cons item items)
  then show ?case
    by (auto simp: cellTexts_append headerTexts_append split: sum.splits if_splits dest!: cellOps_texts)
qed

lemma buildPdf_texts:
  "buildPdf env data flds title w = Inr ops \<Longrightarrow>
     headerTexts ops = map headerLabel flds
     \<and> cellTexts ops = concat (map (\<lambda>item. map (displayOf env item) flds) data)"
  by (auto simp: buildPdf_def titleOps_def footerOps_def headerTexts_append cellTexts_append headerOps_texts
        split: sum.splits dest!: rowOps_texts)



section \<open>Missing aggregates\<close>

lemma toFixed2_zero: "toFixed2 0 = ''0.00''"
  by code_simp

lemma show_int_zero: "show_int 0 = ''0''"
  by code_simp

lemma toFixed_nonempty: "toFixed v \<noteq> []"
  by (cases v) (simp_all add: toFixed2_def Let_def)

lemma Number_null: "Number env JNull = JNum 0"
  by simp

lemma Number_num_or_nan: "(\<exists>n. Number env v = JNum n) \<or> Number env v = JNaN"
  by (cases v) (auto split: option.splits)

lemma orZero_num: "\<exists>n. jsOr (Number env v) (JNum 0) = JNum n"
  using Number_num_or_nan [of env v] by (auto simp: jsOr_def)

lemma project_single:
  "CHR ''.'' \<notin> set key \<Longrightarrow> split (CHR ''.'') key = [key]"
  by (induction key) auto

lemma sale_cells:
  "project env (formatSale env item) ''sales'' = Inr (JStr (toFixed (Number env (b_sales item))))"
  "project env (formatSale env item) ''avgOrderValue'' = Inr (JStr (toFixed (Number env (b_avgordervalue item))))"
  "project env (formatSale env item) ''itemsSold'' = Inr (jsOr (Number env (b_itemssold item)) (JNum 0))"
  using orZero_num [of env "b_itemssold item"]
  by (auto simp: project_def project_single formatSale_def projStep_def)

lemma product_cells:
  "project env (formatProduct env product) ''averageRating'' = Inr (JStr (averageRating (p_reviews product)))"
  "project env (formatProduct env product) ''compareAtPrice''
     = Inr (Number env (jsOr (nullable (p_compareAtPrice product)) (JNum 0)))"
  by (auto simp: project_def project_single formatProduct_def projStep_def jsOr_def nullable_def split: option.splits)

lemma order_cells:
  "project env (formatOrder env order) ''discountAmount''
     = Inr (Number env (jsOr (nullable (o_discountAmount order)) (JNum 0)))"
  by (auto simp: project_def project_single formatOrder_def projStep_def jsOr_def nullable_def split: option.splits)

lemma zero_cell:
  "cellValue (JNum 0) = JNum 0" "displayValue env (JNum 0) = Inr ''0''"
  "cellValue (JStr ''0.00'') = JStr ''0.00''" "displayValue env (JStr ''0.00'') = Inr ''0.00''"
  by (simp_all add: cellValue_def displayValue_def show_int_zero)

section \<open>Sales buckets\<close>

lemma salesRow_date: "b_date (salesRow env dateFormat selected k) = k"
  by (simp add: salesRow_def Let_def)

lemma salesQuery_dates:
  "salesQuery env dateFormat startDate endDate table = Inr buckets \<Longrightarrow>
     sorted_wrt (<) (map b_date buckets)"
  by (auto simp: salesQuery_def Let_def salesRow_date comp_def strict_sorted_iff
        split: sum.splits)

lemma stub_sales_rows:
  "salesQuery stubEnv (salesDateFormat noFilters) (JDate (Some 0)) (JDate (Some 90000000)) stubTable
  = Inr [\<lparr>b_date = 0, b_sales = JNum 10, b_orders = JNum 1, b_avgordervalue = JNum 10, b_itemssold = JNull\<rparr>,
     \<lparr>b_date = 86400000, b_sales = JNum 10, b_orders = JNum 1, b_avgordervalue = JNum 10, b_itemssold = JNull\<rparr>]"
  by (simp add: salesQuery_def sqlDateParam_def getTime_def stubTable_def stubOrder_def salesRow_def bucketOf_def
       stubEnv_def sqlSum_def sqlAvg_def itemQuantity_def List.map_filter_def Let_def)

lemma stub_sales_world0:
  "salesQuery stubEnv (salesDateFormat noFilters) (salesStartDate stubEnv noFilters world0)
     (salesEndDate stubEnv noFilters world0) (orderTable stubDs)
  = Inr [\<lparr>b_date = 0, b_sales = JNum 10, b_orders = JNum 1, b_avgordervalue = JNum 10, b_itemssold = JNull\<rparr>]"
  by (simp add: salesQuery_def sqlDateParam_def getTime_def stubDs_def stubOrder_def salesRow_def bucketOf_def
       stubEnv_def sqlSum_def sqlAvg_def itemQuantity_def List.map_filter_def Let_def
       salesStartDate_def salesEndDate_def noFilters_def world0_def)

section \<open>Unsupported formats\<close>

lemma switchFormat_unsupported:
  "format \<noteq> CSV \<Longrightarrow> format \<noteq> EXCEL \<Longrightarrow> format \<noteq> PDF \<Longrightarrow> format \<noteq> JSON \<Longrightarrow>
     switchFormat env format rows flds dt title w
       = (Inl (ApiError (''Unsupported export format: '' @ format) 400), w)"
  by (simp add: switchFormat_def)

section \<open>Writing the delimited text\<close>

lemma exportToCsv_fault:
  "csvParse env flds data = Inr csv \<Longrightarrow> writeFault w = Some (n, m) \<Longrightarrow>
   fst (exportToCsv env data flds dt w) = Inl (ApiError (''Failed to export data to CSV: '' @ m) 500)
   \<and> files (snd (exportToCsv env data flds dt w)) (stagedPath env dt CSV w) = Some (TextFile (take n csv))"
  by (simp add: exportToCsv_def stagedPath_def writeFileSync_def split_beta Let_def
        ensureExportDirectory_fst ensureExportDirectory_snd generateFilename_ensure)

lemma exportToCsv_other_paths:
  "q \<noteq> stagedPath env dt CSV w \<Longrightarrow> files (snd (exportToCsv env data flds dt w)) q = files w q"
  by (simp add: exportToCsv_def stagedPath_def writeFileSync_def split_beta Let_def
        ensureExportDirectory_fst ensureExportDirectory_snd generateFilename_ensure
        split: sum.splits option.splits)

lemma exportToCsv_parse_error:
  "csvParse env flds data = Inl e \<Longrightarrow>
   exportToCsv env data flds dt w = (Inl (ApiError (''Failed to export data to CSV: '' @ message e) 500), w)"
  by (simp add: exportToCsv_def)

lemma stub_csv: "csvParse stubEnv [''id'', ''orderNumber''] [] = Inr ''id,orderNumber''"
  by (simp add: stubEnv_def)

lemma faulty_path:
  "stagedPath stubEnv ORDERS CSV faultyWorld = ''/srv/exports/orders-export-2024-01-15T10-30-00-000Z.csv''"
  by (simp add: stagedPath_def generateFilename_def pathJoin_def stubEnv_def world0_def faultyWorld_def
        replaceColonDot_def)

section \<open>Repeating an export\<close>















section \<open>Pages of the paginated document\<close>

lemma rowTops_append: "rowTops (a @ b) = rowTops a @ rowTops b"
  by (induction a rule: rowTops.induct) simp_all

lemma pages_nonempty: "pages ops \<noteq> []"
  by (induction ops rule: pages.induct) (simp_all split: list.splits)

lemma pages_no_break: "AddPage \<notin> set b \<Longrightarrow> pages b = [b]"
  by (induction b rule: pages.induct) simp_all

lemma pages_prefix:
  "AddPage \<notin> set a \<Longrightarrow> pages (a @ b) = (a @ hd (pages b)) # tl (pages b)"
  using pages_nonempty [of b]
  by (induction a rule: pages.induct) (auto split: list.splits)

lemma pages_suffix:
  "AddPage \<notin> set b \<Longrightarrow> pages (a @ b) = butlast (pages a) @ [last (pages a) @ b]"
proof (induction a rule: pages.induct)
  case 1
  then show ?case by (simp add: pages_no_break)
next
  case (2 ops)
  then show ?case using pages_nonempty [of ops] by simp
qed (auto simp: pages_nonempty split: list.splits)

lemma headerTexts_Cons:
  "headerTexts (op # ops) = [] \<longleftrightarrow> headerTexts [op] = [] \<and> headerTexts ops = []"
  using headerTexts_append [of "[op]" ops] by simp

lemma pages_Cons:
  "op \<noteq> AddPage \<Longrightarrow> pages (op # ops) = (op # hd (pages ops)) # tl (pages ops)"
  using pages_nonempty [of ops] by (cases op) (auto split: list.splits)

lemma headerTexts_pages:
  "headerTexts ops = [] \<Longrightarrow> list_all (\<lambda>p. headerTexts p = []) (pages ops)"
proof (induction ops)
  case Nil
  then show ?case by simp
next
  case (Cons op ops)
  from Cons.prems have one: "headerTexts [op] = []" and rest: "headerTexts ops = []"
    using headerTexts_Cons by blast+
  from Cons.IH [OF rest] have ih: "list_all (\<lambda>p. headerTexts p = []) (pages ops)" .
  obtain p ps where pp: "pages ops = p # ps" using pages_nonempty [of ops] by (cases "pages ops") auto
  show ?case
  proof (cases "op = AddPage")
    case True
    then show ?thesis using ih by simp
  next
    case False
    have "headerTexts (op # p) = []"
      using one ih pp headerTexts_Cons [of op p] by simp
    then show ?thesis using ih pp pages_Cons [OF False, of ops] by simp
  qed
qed

lemma headerOps_plain:
  "AddPage \<notin> set (headerOps cw left flds)" "rowTops (headerOps cw left flds) = []"
  by (induction flds arbitrary: left) simp_all

lemma cellOps_rowTops:
  "cellOps env item i y0 cw left flds = Inr ops \<Longrightarrow>
     rowTops ops = replicate (length flds) y0 \<and> AddPage \<notin> set ops"
proof (induction flds arbitrary: left ops)
  case Nil
  then show ?case by simp
next
  case (Cons f flds)
  then show ?case by (auto split: sum.splits)
qed

lemma rowOps_rowTops:
  "150 \<le> pageHeight env \<Longrightarrow> 50 \<le> y0 \<Longrightarrow> y0 \<le> pageHeight env - 100 \<Longrightarrow>
   rowOps env flds cw i y0 data = Inr ops \<Longrightarrow>
     list_all (\<lambda>y. 50 \<le> y \<and> y \<le> pageHeight env - 100) (rowTops ops)"
proof (induction data arbitrary: i y0 ops)
  case Nil
  then show ?case by simp
next
  case (Cons item items)
  obtain cells where cells: "cellOps env item i y0 cw tableLeft flds = Inr cells"
    using cellOps_total by blast
  then have tops: "rowTops cells = replicate (length flds) y0" using cellOps_rowTops by blast
  have here: "list_all (\<lambda>y. 50 \<le> y \<and> y \<le> pageHeight env - 100) (rowTops cells)"
    using tops Cons.prems(2,3) by (simp add: list_all_iff)
  show ?case
  proof (cases "y0 + 25 > pageHeight env - 100")
    case True
    then obtain rest where rest: "rowOps env flds cw (Suc i) 50 items = Inr rest" "ops = cells @ [AddPage] @ rest"
      using Cons.prems(4) cells by (auto split: sum.splits)
    have "list_all (\<lambda>y. 50 \<le> y \<and> y \<le> pageHeight env - 100) (rowTops rest)"
      using Cons.IH [OF Cons.prems(1) _ _ rest(1)] Cons.prems(1) by simp
    then show ?thesis using here rest(2) by (simp add: rowTops_append)
  next
    case False
    then obtain rest where rest: "rowOps env flds cw (Suc i) (y0 + 25) items = Inr rest" "ops = cells @ rest"
      using Cons.prems(4) cells by (auto split: sum.splits)
    have "list_all (\<lambda>y. 50 \<le> y \<and> y \<le> pageHeight env - 100) (rowTops rest)"
      using Cons.IH [OF Cons.prems(1) _ _ rest(1)] Cons.prems(2) False by simp
    then show ?thesis using here rest(2) by (simp add: rowTops_append)
  qed
qed

lemma rowOps_break:
  "rowOps env flds cw i y0 (item # items) = Inr ops \<Longrightarrow> y0 + 25 > pageHeight env - 100 \<Longrightarrow>
     \<exists>cells rest. cellOps env item i y0 cw tableLeft flds = Inr cells
        \<and> rowOps env flds cw (Suc i) 50 items = Inr rest
        \<and> ops = cells @ AddPage # rest
        \<and> AddPage \<notin> set cells \<and> headerTexts rest = []"
  by (auto split: sum.splits dest: cellOps_rowTops rowOps_texts)

lemma buildPdf_shape:
  assumes "buildPdf env data flds title w = Inr ops"
  shows "\<exists>body. rowOps env flds (equalWidth flds) 0 (tableTop + 30) data = Inr body
           \<and> ops = (titleOps env title w @ [FontSize 12] @ headerOps (equalWidth flds) tableLeft flds)
                   @ body @ footerOps data"
  using assms by (auto simp: buildPdf_def split: sum.splits)

lemma list_all_hd_tl:
  "list_all P xs \<Longrightarrow> xs \<noteq> [] \<Longrightarrow> P (hd xs) \<and> list_all P (tl xs)"
  by (cases xs) simp_all

lemma buildPdf_pages:
  assumes "buildPdf env data flds title w = Inr ops"
  shows "cellTexts ops = concat (map (\<lambda>item. map (displayOf env item) flds) data)"
    and "headerTexts (hd (pages ops)) = map headerLabel flds"
    and "list_all (\<lambda>p. headerTexts p = []) (tl (pages ops))"
    and "\<exists>pre. last (pages ops) = pre @ footerOps data"
    and "280 \<le> pageHeight env \<Longrightarrow>
          list_all (\<lambda>y. 50 \<le> y \<and> y + 25 \<le> pageHeight env - 50) (rowTops ops)"
proof -
  let ?a = "titleOps env title w @ [FontSize 12] @ headerOps (equalWidth flds) tableLeft flds"
  obtain body where body: "rowOps env flds (equalWidth flds) 0 (tableTop + 30) data = Inr body"
    and ops: "ops = ?a @ body @ footerOps data"
    using buildPdf_shape [OF assms] by blast
  show "cellTexts ops = concat (map (\<lambda>item. map (displayOf env item) flds) data)"
    using buildPdf_texts [OF assms] by simp
  have a_plain: "AddPage \<notin> set ?a"
    by (simp add: titleOps_def headerOps_plain)
  have a_texts: "headerTexts ?a = map headerLabel flds"
    by (simp add: titleOps_def headerTexts_append headerOps_texts)
  have rest_texts: "headerTexts (body @ footerOps data) = []"
    using rowOps_texts [OF body] by (simp add: headerTexts_append footerOps_def)
  have rest_pages: "list_all (\<lambda>p. headerTexts p = []) (pages (body @ footerOps data))"
    using headerTexts_pages [OF rest_texts] .
  have split: "pages ops = (?a @ hd (pages (body @ footerOps data))) # tl (pages (body @ footerOps data))"
    unfolding ops using pages_prefix [OF a_plain] by simp
  from list_all_hd_tl [OF rest_pages pages_nonempty]
  have h: "headerTexts (hd (pages (body @ footerOps data))) = []"
    and t: "list_all (\<lambda>p. headerTexts p = []) (tl (pages (body @ footerOps data)))"
    by simp_all
  show "headerTexts (hd (pages ops)) = map headerLabel flds"
    using split a_texts h headerTexts_append [of ?a "hd (pages (body @ footerOps data))"] by simp
  show "list_all (\<lambda>p. headerTexts p = []) (tl (pages ops))"
    using split t by simp
  have f_plain: "AddPage \<notin> set (footerOps data)" by (simp add: footerOps_def)
  have "pages ((?a @ body) @ footerOps data)
          = butlast (pages (?a @ body)) @ [last (pages (?a @ body)) @ footerOps data]"
    using pages_suffix [OF f_plain] by blast
  then have "last (pages ops) = last (pages (?a @ body)) @ footerOps data"
    unfolding ops by simp
  then show "\<exists>pre. last (pages ops) = pre @ footerOps data" by blast
  show "list_all (\<lambda>y. 50 \<le> y \<and> y + 25 \<le> pageHeight env - 50) (rowTops ops)" if big: "280 \<le> pageHeight env"
  proof -
    have "list_all (\<lambda>y. 50 \<le> y \<and> y \<le> pageHeight env - 100) (rowTops body)"
      using rowOps_rowTops [OF _ _ _ body] big by simp
    moreover have "rowTops ops = rowTops body"
      unfolding ops by (simp add: rowTops_append titleOps_def footerOps_def headerOps_plain)
    ultimately show ?thesis by (auto simp: list_all_iff)
  qed
qed

lemma stub_doc:
  "buildPdf stubEnv [stubRow] [''id''] ''Orders Report'' world0 =
     Inr [FontSize 20, Text ''Orders Report'' ''center'', MoveDown 1,
          FontSize 10, Text ''Generated on: 1/15/2024, 10:30:00 AM'' ''center'', MoveDown 2,
          FontSize 12,
          Rect 50 150 500 30, FillAndStroke ''#e0e0e0'' ''#000000'', FillColor ''#000000'',
          TextAt ''Id'' 55 155 None,
          Rect 50 180 500 25, FillAndStroke ''#ffffff'' ''#000000'', FillColor ''#000000'',
          TextAt ''a'' 55 185 (Some (490, 15)),
          FontSize 10, Text ''Total Records: 1'' ''right'']"
  by code_simp

lemma stub_row_low:
  "rowOps stubEnv [''id''] 500 0 700 [stubRow] =
     Inr [Rect 50 700 500 25, FillAndStroke ''#ffffff'' ''#000000'', FillColor ''#000000'',
          TextAt ''a'' 55 705 (Some (490, 15)), AddPage]"
  by code_simp

lemma stub_row_break:
  "rowOps stubEnv [''id''] 500 20 680 [stubRow, stubRow] =
     Inr [Rect 50 680 500 25, FillAndStroke ''#ffffff'' ''#000000'', FillColor ''#000000'',
          TextAt ''a'' 55 685 (Some (490, 15)), AddPage,
          Rect 50 50 500 25, FillAndStroke ''#f9f9f9'' ''#000000'', FillColor ''#000000'',
          TextAt ''a'' 55 55 (Some (490, 15))]"
  by code_simp

lemma stub_row_next:
  "rowOps stubEnv [''id''] 500 21 50 [stubRow] =
     Inr [Rect 50 50 500 25, FillAndStroke ''#f9f9f9'' ''#000000'', FillColor ''#000000'',
          TextAt ''a'' 55 55 (Some (490, 15))]"
  by code_simp

section \<open>Properties of the export service\<close>

subsection \<open>C1: Unsupported formats\<close>

text \<open>
  Claim C1, as the code has it. For every report kind, an export called with a format
  that is none of \<^verbatim>\<open>csv\<close>, \<^verbatim>\<open>excel\<close>, \<^verbatim>\<open>pdf\<close>, \<^verbatim>\<open>json\<close> first sends its query
  to the data source: exactly one call is counted. If the query fails, its exception
  is the result; otherwise the result is the \<^verbatim>\<open>ApiError\<close> with status 400 and message
  \<^verbatim>\<open>Unsupported export format: \<close> followed by the format. No file or directory is
  created.
\<close>

theorem unsupported_format_after_query:
  "format \<noteq> CSV \<longrightarrow> format \<noteq> EXCEL \<longrightarrow> format \<noteq> PDF \<longrightarrow> format \<noteq> JSON \<longrightarrow>
     exportOrders env ds format fl w =
       ((case orderFindMany ds (ordersWhere env fl) (''createdAt'', ''desc'') of
           Inl e \<Rightarrow> Inl e
         | Inr rows \<Rightarrow> Inl (ApiError (''Unsupported export format: '' @ format) 400)),
        queried w)
     \<and> exportProducts env ds format fl w =
       ((case productFindMany ds (productsWhere env fl) (''name'', ''asc'') of
           Inl e \<Rightarrow> Inl e
         | Inr rows \<Rightarrow> Inl (ApiError (''Unsupported export format: '' @ format) 400)),
        queried w)
     \<and> exportCustomers env ds format fl w =
       ((case userFindMany ds (customersWhere env fl) (''lastName'', ''asc'') of
           Inl e \<Rightarrow> Inl e
         | Inr rows \<Rightarrow> Inl (ApiError (''Unsupported export format: '' @ format) 400)),
        queried w)
     \<and> exportSales env ds format fl w =
       ((case salesQuery env (salesDateFormat fl) (salesStartDate env fl w) (salesEndDate env fl w)
               (orderTable ds) of
           Inl e \<Rightarrow> Inl e
         | Inr rows \<Rightarrow> Inl (ApiError (''Unsupported export format: '' @ format) 400)),
        queried w)
     \<and> exportInventory env ds format fl w =
       ((case productFindMany ds (inventoryWhere env fl) (''quantity'', ''asc'') of
           Inl e \<Rightarrow> Inl e
         | Inr rows \<Rightarrow> Inl (ApiError (''Unsupported export format: '' @ format) 400)),
        queried w)
     \<and> exportVendors env ds format fl w =
       ((case vendorFindMany ds (vendorsWhere env fl) (''businessName'', ''asc'') of
           Inl e \<Rightarrow> Inl e
         | Inr rows \<Rightarrow> Inl (ApiError (''Unsupported export format: '' @ format) 400)),
        queried w)
     \<and> dbCalls (queried w) = dbCalls w + 1
     \<and> files (queried w) = files w
     \<and> dirs (queried w) = dirs w"
  by (simp add: exportOrders_def exportProducts_def exportCustomers_def exportSales_def
        exportInventory_def exportVendors_def switchFormat_unsupported queried_def
        split: sum.splits)

text \<open>The format \<^verbatim>\<open>xml\<close> on the stub data source, for the six report kinds.\<close>

theorem unsupported_format_after_query_witness:
  "''xml'' \<noteq> CSV \<and> ''xml'' \<noteq> EXCEL \<and> ''xml'' \<noteq> PDF \<and> ''xml'' \<noteq> JSON
   \<and> exportOrders stubEnv stubDs ''xml'' noFilters world0
       = (Inl (ApiError ''Unsupported export format: xml'' 400), queried world0)
   \<and> exportProducts stubEnv stubDs ''xml'' noFilters world0
       = (Inl (ApiError ''Unsupported export format: xml'' 400), queried world0)
   \<and> exportCustomers stubEnv stubDs ''xml'' noFilters world0
       = (Inl (ApiError ''Unsupported export format: xml'' 400), queried world0)
   \<and> exportSales stubEnv stubDs ''xml'' noFilters world0
       = (Inl (ApiError ''Unsupported export format: xml'' 400), queried world0)
   \<and> exportInventory stubEnv stubDs ''xml'' noFilters world0
       = (Inl (ApiError ''Unsupported export format: xml'' 400), queried world0)
   \<and> exportVendors stubEnv stubDs ''xml'' noFilters world0
       = (Inl (ApiError ''Unsupported export format: xml'' 400), queried world0)
   \<and> dbCalls (queried world0) = 1"
proof -
  have ds: "orderFindMany stubDs wo ob = Inr [stubOrder]" "productFindMany stubDs wp ob = Inr []"
    "userFindMany stubDs wu ob = Inr []" "vendorFindMany stubDs wv ob = Inr []" for wo wp wu wv ob
    by (simp_all add: stubDs_def)
  show ?thesis
    using unsupported_format_after_query [of "''xml''" stubEnv stubDs noFilters world0]
    by (simp add: ds stub_sales_world0) (simp add: world0_def)
qed

text \<open>
  Claim C1 as stated has the data-source call count at zero. An orders export in the
  format \<^verbatim>\<open>xml\<close>, started with no call counted, fails as unsupported with one call
  counted.
\<close>

theorem unsupported_format_counterexample:
  "dbCalls world0 = 0
   \<and> fst (exportOrders stubEnv stubDs ''xml'' noFilters world0)
       = Inl (ApiError ''Unsupported export format: xml'' 400)
   \<and> dbCalls (snd (exportOrders stubEnv stubDs ''xml'' noFilters world0)) = 1"
  by (simp add: exportOrders_def stubDs_def switchFormat_unsupported queried_def world0_def)

subsection \<open>C2: Range filters\<close>

text \<open>
  Claim C2, as the code has it. In the products export the price bounds compose
  independently: the query has a lower price bound exactly when \<^verbatim>\<open>minPrice\<close> is
  truthy and an upper one exactly when \<^verbatim>\<open>maxPrice\<close> is truthy, both in one filter
  object (a conjunction), and no price filter when neither is. In the inventory
  export, when no \<^verbatim>\<open>inStock\<close> filter is given, the quantity bounds compose the same
  way, a bound counting when its filter is not \<^verbatim>\<open>undefined\<close>. In the orders,
  customers and vendors exports the date range constrains \<^verbatim>\<open>createdAt\<close> by both
  bounds when \<^verbatim>\<open>startDate\<close> and \<^verbatim>\<open>endDate\<close> are both truthy, and not at all
  otherwise.
\<close>

theorem range_filters_compose:
  "pw_price (productsWhere env fl) =
     (if truthy (fl ''minPrice'') \<or> truthy (fl ''maxPrice'')
      then Some \<lparr>gte = (if truthy (fl ''minPrice'') then Some (Number env (fl ''minPrice'')) else None),
                 lte = (if truthy (fl ''maxPrice'') then Some (Number env (fl ''maxPrice'')) else None),
                 gt = None\<rparr>
      else None)
   \<and> (fl ''inStock'' = JUndefined \<longrightarrow>
        pw_quantity (inventoryWhere env fl) =
          (if fl ''minQuantity'' \<noteq> JUndefined \<or> fl ''maxQuantity'' \<noteq> JUndefined
           then Some \<lparr>gte = (if fl ''minQuantity'' \<noteq> JUndefined
                             then Some (Number env (fl ''minQuantity'')) else None),
                      lte = (if fl ''maxQuantity'' \<noteq> JUndefined
                             then Some (Number env (fl ''maxQuantity'')) else None),
                      gt = None\<rparr>
           else None))
   \<and> ow_createdAt (ordersWhere env fl) =
       (if truthy (fl ''startDate'') \<and> truthy (fl ''endDate'')
        then Some \<lparr>gte = Some (newDate env (fl ''startDate'')),
                   lte = Some (newDate env (fl ''endDate'')), gt = None\<rparr>
        else None)
   \<and> uw_createdAt (customersWhere env fl) = ow_createdAt (ordersWhere env fl)
   \<and> vw_createdAt (vendorsWhere env fl) = ow_createdAt (ordersWhere env fl)"
  by (simp add: productsWhere_def priceRange_def inventoryWhere_def quantityRange_def
        quantityAfterMax_def quantityAfterMin_def noBound_def ordersWhere_def customersWhere_def
        vendorsWhere_def dateRange_def)

text \<open>An inventory export with a lower quantity bound only.\<close>

theorem range_filters_compose_witness:
  "(noFilters(''minQuantity'' := JNum 5)) ''inStock'' = JUndefined
   \<and> pw_quantity (inventoryWhere stubEnv (noFilters(''minQuantity'' := JNum 5)))
       = Some \<lparr>gte = Some (JNum 5), lte = None, gt = None\<rparr>"
  using range_filters_compose [of stubEnv "noFilters(''minQuantity'' := JNum 5)"]
  by (simp add: noFilters_def)

text \<open>
  Claim C2 as stated fails for a date range with one bound: an orders export given
  only \<^verbatim>\<open>startDate\<close> sends a query without any constraint on \<^verbatim>\<open>createdAt\<close>.
\<close>

theorem date_bound_counterexample:
  "truthy ((noFilters(''startDate'' := JStr ''2024-01-01'')) ''startDate'')
   \<and> ow_createdAt (ordersWhere stubEnv (noFilters(''startDate'' := JStr ''2024-01-01''))) = None"
  by (simp add: ordersWhere_def dateRange_def noFilters_def)

subsection \<open>C3: File names\<close>

text \<open>
  Claim C3, as the code has it. For every report kind and every format the file name
  is \<^verbatim>\<open>{kind}-export-{timestamp}.{format}\<close>: the kind's string, the ISO time stamp
  of the call with every \<^verbatim>\<open>:\<close> and \<^verbatim>\<open>.\<close> replaced by \<^verbatim>\<open>-\<close> (same length, no colon
  or dot left), and as extension the string of the format itself. A renderer that
  returns a path returns the export directory joined with that name, with extension
  \<^verbatim>\<open>csv\<close> for delimited text, \<^verbatim>\<open>excel\<close> for the workbook, \<^verbatim>\<open>pdf\<close> for the paginated
  document and \<^verbatim>\<open>json\<close> for the structured dump; each of the six export functions
  that returns a path was given one of these four formats and returns the path named
  after its kind and that format.
\<close>

theorem filename_shape:
  "generateFilename env dataType format w
     = dataTypeStr dataType @ ''-export-'' @ replaceColonDot (toISOString env (clock w)) @ ''.'' @ format
   \<and> length (replaceColonDot s) = length s
   \<and> CHR '':'' \<notin> set (replaceColonDot s) \<and> CHR ''.'' \<notin> set (replaceColonDot s)
   \<and> (\<forall>p. fst (exportToCsv env data flds dataType w) = Inr p \<longrightarrow> p = stagedPath env dataType ''csv'' w)
   \<and> (\<forall>p. fst (exportToExcel env data flds dataType w) = Inr p \<longrightarrow> p = stagedPath env dataType ''excel'' w)
   \<and> (\<forall>p. fst (exportToPdf env data flds dataType title w) = Inr p \<longrightarrow> p = stagedPath env dataType ''pdf'' w)
   \<and> (\<forall>p. fst (exportToJson env data dataType w) = Inr p \<longrightarrow> p = stagedPath env dataType ''json'' w)
   \<and> (\<forall>p. fst (exportOrders env ds format fl w) = Inr p \<longrightarrow>
          (format = CSV \<or> format = EXCEL \<or> format = PDF \<or> format = JSON) \<and> p = stagedPath env ORDERS format w)
   \<and> (\<forall>p. fst (exportProducts env ds format fl w) = Inr p \<longrightarrow>
          (format = CSV \<or> format = EXCEL \<or> format = PDF \<or> format = JSON) \<and> p = stagedPath env PRODUCTS format w)
   \<and> (\<forall>p. fst (exportCustomers env ds format fl w) = Inr p \<longrightarrow>
          (format = CSV \<or> format = EXCEL \<or> format = PDF \<or> format = JSON) \<and> p = stagedPath env CUSTOMERS format w)
   \<and> (\<forall>p. fst (exportSales env ds format fl w) = Inr p \<longrightarrow>
          (format = CSV \<or> format = EXCEL \<or> format = PDF \<or> format = JSON) \<and> p = stagedPath env SALES format w)
   \<and> (\<forall>p. fst (exportInventory env ds format fl w) = Inr p \<longrightarrow>
          (format = CSV \<or> format = EXCEL \<or> format = PDF \<or> format = JSON) \<and> p = stagedPath env INVENTORY format w)
   \<and> (\<forall>p. fst (exportVendors env ds format fl w) = Inr p \<longrightarrow>
          (format = CSV \<or> format = EXCEL \<or> format = PDF \<or> format = JSON) \<and> p = stagedPath env VENDORS format w)"
proof -
  have name: "generateFilename env dataType format w
     = dataTypeStr dataType @ ''-export-'' @ replaceColonDot (toISOString env (clock w)) @ ''.'' @ format"
    by (simp add: generateFilename_def)
  note safe = replaceColonDot_safe [of s]
  note renderers = exportToCsv_path [of env data flds dataType w] exportToExcel_path [of env data flds dataType w]
    exportToPdf_path [of env data flds dataType title w] exportToJson_path [of env data dataType w]
  note kinds = exportOrders_path [of env ds format fl w] exportProducts_path [of env ds format fl w]
    exportCustomers_path [of env ds format fl w] exportSales_path [of env ds format fl w]
    exportInventory_path [of env ds format fl w] exportVendors_path [of env ds format fl w]
  show ?thesis
    apply (intro conjI allI impI)
    using name safe renderers kinds apply blast+
    done
qed

text \<open>The four renderers and the six export functions on the stub world: each returns
  the path the theorem gives.\<close>

theorem filename_shape_witness:
  "fst (exportToCsv stubEnv [] [] ORDERS world0) = Inr ''/srv/exports/orders-export-2024-01-15T10-30-00-000Z.csv''
   \<and> fst (exportToExcel stubEnv [] [] ORDERS world0) = Inr ''/srv/exports/orders-export-2024-01-15T10-30-00-000Z.excel''
   \<and> fst (exportToPdf stubEnv [] [] ORDERS ''Orders Report'' world0) = Inr ''/srv/exports/orders-export-2024-01-15T10-30-00-000Z.pdf''
   \<and> fst (exportToJson stubEnv [] ORDERS world0) = Inr ''/srv/exports/orders-export-2024-01-15T10-30-00-000Z.json''
   \<and> fst (exportOrders stubEnv stubDs EXCEL noFilters world0) = Inr ''/srv/exports/orders-export-2024-01-15T10-30-00-000Z.excel''
   \<and> fst (exportProducts stubEnv stubDs EXCEL noFilters world0) = Inr ''/srv/exports/products-export-2024-01-15T10-30-00-000Z.excel''
   \<and> fst (exportCustomers stubEnv stubDs EXCEL noFilters world0) = Inr ''/srv/exports/customers-export-2024-01-15T10-30-00-000Z.excel''
   \<and> fst (exportSales stubEnv stubDs EXCEL noFilters world0) = Inr ''/srv/exports/sales-export-2024-01-15T10-30-00-000Z.excel''
   \<and> fst (exportInventory stubEnv stubDs EXCEL noFilters world0) = Inr ''/srv/exports/inventory-export-2024-01-15T10-30-00-000Z.excel''
   \<and> fst (exportVendors stubEnv stubDs EXCEL noFilters world0) = Inr ''/srv/exports/vendors-export-2024-01-15T10-30-00-000Z.excel''"
proof -
  have csv: "csvParse stubEnv [] [] = Inr []" by (simp add: stubEnv_def)
  note r = exportToCsv_ok [OF csv stub_world0(1), of ORDERS] exportToExcel_ok [OF stub_world0(1), of stubEnv "[]" "[]" ORDERS]
    exportToPdf_ok [OF stub_world0(1), of stubEnv "[]" "[]" "''Orders Report''" ORDERS]
    exportToJson_ok [OF stub_world0(1), of stubEnv "[]" ORDERS]
  show ?thesis
    using filename_shape [of stubEnv ORDERS EXCEL world0 "[]" "[]" "[]" "''Orders Report''" stubDs noFilters]
      r stub_exports_excel stub_sales_excel stub_paths
    by auto
qed

text \<open>
  Claim C3 as stated gives the workbook the extension \<^verbatim>\<open>xlsx\<close>. The workbook of an
  orders export is named with the format's own string, \<^verbatim>\<open>excel\<close>.
\<close>

theorem filename_xlsx_counterexample:
  "generateFilename stubEnv ORDERS EXCEL world0 = ''orders-export-2024-01-15T10-30-00-000Z.excel''
   \<and> generateFilename stubEnv ORDERS EXCEL world0 \<noteq> ''orders-export-2024-01-15T10-30-00-000Z.xlsx''
   \<and> fst (exportOrders stubEnv stubDs EXCEL noFilters world0)
       = Inr ''/srv/exports/orders-export-2024-01-15T10-30-00-000Z.excel''"
  using stub_exports_excel(1) stub_paths(1)
  by (simp add: generateFilename_def stubEnv_def replaceColonDot_def)

subsection \<open>C4: Writing the delimited text\<close>

text \<open>
  Claim C4, as the code has it. The delimited-text renderer writes the parser's text
  to the final path itself, with one write. When the write succeeds the final path
  holds the whole text and is returned. When the write fails after \<open>n\<close> characters
  the call fails with an \<^verbatim>\<open>ApiError\<close> of status 500 and the final path holds the
  first \<open>n\<close> characters of the text. No other path is written in either case (there
  is no temporary file and no rename). When the parser fails, nothing is written.
\<close>

theorem csv_written_in_place:
  "(csvParse env flds data = Inr csv \<longrightarrow> writeFault w = None \<longrightarrow>
      fst (exportToCsv env data flds dataType w) = Inr (stagedPath env dataType CSV w)
      \<and> files (snd (exportToCsv env data flds dataType w)) (stagedPath env dataType CSV w)
          = Some (TextFile csv))
   \<and> (csvParse env flds data = Inr csv \<longrightarrow> writeFault w' = Some (n, m) \<longrightarrow>
      fst (exportToCsv env data flds dataType w')
          = Inl (ApiError (''Failed to export data to CSV: '' @ m) 500)
      \<and> files (snd (exportToCsv env data flds dataType w')) (stagedPath env dataType CSV w')
          = Some (TextFile (take n csv)))
   \<and> (q \<noteq> stagedPath env dataType CSV w \<longrightarrow>
      files (snd (exportToCsv env data flds dataType w)) q = files w q)
   \<and> (csvParse env' flds' data' = Inl e \<longrightarrow>
      exportToCsv env' data' flds' dataType w
          = (Inl (ApiError (''Failed to export data to CSV: '' @ message e) 500), w))"
  using exportToCsv_ok [of env flds data csv w dataType]
    exportToCsv_fault [of env flds data csv w' n m dataType]
    exportToCsv_other_paths [of q env dataType w data flds]
    exportToCsv_parse_error [of env' flds' data' e dataType w]
  by blast

text \<open>
  Claim C4 as stated leaves no partial file at the final path. With a file system
  that fails after three characters, the export of the text \<^verbatim>\<open>id,orderNumber\<close> fails
  and the final path holds \<^verbatim>\<open>id,\<close>.
\<close>

theorem csv_partial_file_counterexample:
  "fst (exportToCsv stubEnv [] [''id'', ''orderNumber''] ORDERS faultyWorld)
     = Inl (ApiError ''Failed to export data to CSV: ENOSPC: no space left on device, write'' 500)
   \<and> files (snd (exportToCsv stubEnv [] [''id'', ''orderNumber''] ORDERS faultyWorld))
        ''/srv/exports/orders-export-2024-01-15T10-30-00-000Z.csv'' = Some (TextFile ''id,'')
   \<and> csvParse stubEnv [''id'', ''orderNumber''] [] = Inr ''id,orderNumber''"
  using exportToCsv_fault [OF stub_csv, of faultyWorld 3 "''ENOSPC: no space left on device, write''" ORDERS]
  by (simp add: faulty_path stub_csv) (simp add: faultyWorld_def)

text \<open>The stub world, the world whose file system fails after three characters, and
  a parser that fails.\<close>

theorem csv_written_in_place_witness:
  "csvParse stubEnv [''id'', ''orderNumber''] [] = Inr ''id,orderNumber''
   \<and> writeFault world0 = None
   \<and> files (snd (exportToCsv stubEnv [] [''id'', ''orderNumber''] ORDERS world0))
        (stagedPath stubEnv ORDERS CSV world0) = Some (TextFile ''id,orderNumber'')
   \<and> writeFault faultyWorld = Some (3, ''ENOSPC: no space left on device, write'')
   \<and> files (snd (exportToCsv stubEnv [] [''id'', ''orderNumber''] ORDERS faultyWorld))
        (stagedPath stubEnv ORDERS CSV faultyWorld) = Some (TextFile ''id,'')
   \<and> ''/tmp/other'' \<noteq> stagedPath stubEnv ORDERS CSV world0
   \<and> files (snd (exportToCsv stubEnv [] [''id'', ''orderNumber''] ORDERS world0)) ''/tmp/other''
       = files world0 ''/tmp/other''
   \<and> csvParse failingParser [] [] = Inl (Error ''Data should not be empty'')
   \<and> exportToCsv failingParser [] [] ORDERS world0
       = (Inl (ApiError ''Failed to export data to CSV: Data should not be empty'' 500), world0)"
proof -
  have f: "writeFault faultyWorld = Some (3, ''ENOSPC: no space left on device, write'')"
    by (simp add: faultyWorld_def)
  have other: "''/tmp/other'' \<noteq> stagedPath stubEnv ORDERS CSV world0"
    by (simp add: stub_paths)
  have pe: "csvParse failingParser [] [] = Inl (Error ''Data should not be empty'')"
    by (simp add: failingParser_def)
  show ?thesis
    using csv_written_in_place [of stubEnv "[''id'', ''orderNumber'']" "[]" "''id,orderNumber''" world0
        ORDERS faultyWorld 3 "''ENOSPC: no space left on device, write''" "''/tmp/other''"
        failingParser "[]" "[]" "Error ''Data should not be empty''"]
      stub_csv stub_world0(1) f other pe
    by simp
qed

subsection \<open>C5: Sales buckets\<close>

text \<open>
  Claim C5. The sales export buckets \<^verbatim>\<open>"createdAt"\<close> by exactly one of four SQL
  expressions: the hour, the day (\<^verbatim>\<open>DATE\<close>), the week or the month, for the interval
  \<^verbatim>\<open>hourly\<close>, \<^verbatim>\<open>daily\<close>, \<^verbatim>\<open>weekly\<close> or \<^verbatim>\<open>monthly\<close>; when the filter set gives
  no interval it buckets by day. The rows the query returns are strictly ascending
  by bucket, and the export hands the renderer these rows formatted one by one, in
  that order.
\<close>

theorem sales_buckets:
  "(salesDateFormat fl = ''DATE_TRUNC('hour', \"createdAt\")''
      \<or> salesDateFormat fl = ''DATE(\"createdAt\")''
      \<or> salesDateFormat fl = ''DATE_TRUNC('week', \"createdAt\")''
      \<or> salesDateFormat fl = ''DATE_TRUNC('month', \"createdAt\")'')
   \<and> (\<not> truthy (fl ''interval'') \<longrightarrow> salesDateFormat fl = ''DATE(\"createdAt\")'')
   \<and> salesDateFormat (fl(''interval'' := JStr ''hourly'')) = ''DATE_TRUNC('hour', \"createdAt\")''
   \<and> salesDateFormat (fl(''interval'' := JStr ''daily'')) = ''DATE(\"createdAt\")''
   \<and> salesDateFormat (fl(''interval'' := JStr ''weekly'')) = ''DATE_TRUNC('week', \"createdAt\")''
   \<and> salesDateFormat (fl(''interval'' := JStr ''monthly'')) = ''DATE_TRUNC('month', \"createdAt\")''
   \<and> (salesQuery env dateFormat startDate endDate table = Inr buckets \<longrightarrow>
        sorted_wrt (<) (map b_date buckets))
   \<and> (salesQuery env (salesDateFormat fl) (salesStartDate env fl w) (salesEndDate env fl w)
          (orderTable ds) = Inr salesData \<longrightarrow>
        sorted_wrt (<) (map b_date salesData)
        \<and> exportSales env ds format fl w =
            switchFormat env format (map (formatSale env) salesData) salesFields SALES
              ''Sales Report'' (queried w))"
proof -
  have four: "salesDateFormat fl = ''DATE_TRUNC('hour', \"createdAt\")''
      \<or> salesDateFormat fl = ''DATE(\"createdAt\")''
      \<or> salesDateFormat fl = ''DATE_TRUNC('week', \"createdAt\")''
      \<or> salesDateFormat fl = ''DATE_TRUNC('month', \"createdAt\")''"
    by (simp add: salesDateFormat_def)
  have dflt: "\<not> truthy (fl ''interval'') \<longrightarrow> salesDateFormat fl = ''DATE(\"createdAt\")''"
    by (simp add: salesDateFormat_def salesInterval_def jsOr_def)
  have each: "salesDateFormat (fl(''interval'' := JStr ''hourly'')) = ''DATE_TRUNC('hour', \"createdAt\")''"
    "salesDateFormat (fl(''interval'' := JStr ''daily'')) = ''DATE(\"createdAt\")''"
    "salesDateFormat (fl(''interval'' := JStr ''weekly'')) = ''DATE_TRUNC('week', \"createdAt\")''"
    "salesDateFormat (fl(''interval'' := JStr ''monthly'')) = ''DATE_TRUNC('month', \"createdAt\")''"
    by (simp_all add: salesDateFormat_def salesInterval_def jsOr_def)
  have asc: "salesQuery env dateFormat startDate endDate table = Inr buckets \<longrightarrow>
        sorted_wrt (<) (map b_date buckets)"
    using salesQuery_dates by blast
  have rows: "salesQuery env (salesDateFormat fl) (salesStartDate env fl w) (salesEndDate env fl w)
          (orderTable ds) = Inr salesData \<longrightarrow>
        sorted_wrt (<) (map b_date salesData)
        \<and> exportSales env ds format fl w =
            switchFormat env format (map (formatSale env) salesData) salesFields SALES
              ''Sales Report'' (queried w)"
    using salesQuery_dates by (auto simp: exportSales_def)
  from four dflt each asc rows show ?thesis by blast
qed

text \<open>No interval given: daily buckets; two orders on consecutive days, the later
  one first in the table, come out in two buckets, the earlier first.\<close>

theorem sales_buckets_witness:
  "\<not> truthy (noFilters ''interval'')
   \<and> salesDateFormat noFilters = ''DATE(\"createdAt\")''
   \<and> salesQuery stubEnv (salesDateFormat noFilters) (JDate (Some 0)) (JDate (Some 90000000)) stubTable
       = Inr [\<lparr>b_date = 0, b_sales = JNum 10, b_orders = JNum 1, b_avgordervalue = JNum 10,
                b_itemssold = JNull\<rparr>,
              \<lparr>b_date = 86400000, b_sales = JNum 10, b_orders = JNum 1, b_avgordervalue = JNum 10,
                b_itemssold = JNull\<rparr>]
   \<and> sorted_wrt (<) [0, 86400000 :: int]
   \<and> salesQuery stubEnv (salesDateFormat noFilters) (salesStartDate stubEnv noFilters world0)
         (salesEndDate stubEnv noFilters world0) (orderTable stubDs)
       = Inr [\<lparr>b_date = 0, b_sales = JNum 10, b_orders = JNum 1, b_avgordervalue = JNum 10,
                b_itemssold = JNull\<rparr>]
   \<and> exportSales stubEnv stubDs EXCEL noFilters world0 =
       switchFormat stubEnv EXCEL
         (map (formatSale stubEnv)
            [\<lparr>b_date = 0, b_sales = JNum 10, b_orders = JNum 1, b_avgordervalue = JNum 10,
              b_itemssold = JNull\<rparr>])
         salesFields SALES ''Sales Report'' (queried world0)"
proof -
  have nt: "\<not> truthy (noFilters ''interval'')" by (simp add: noFilters_def)
  show ?thesis
    using sales_buckets [of noFilters stubEnv "salesDateFormat noFilters" "JDate (Some 0)"
        "JDate (Some 90000000)" stubTable _ world0 stubDs _ EXCEL] nt stub_sales_rows stub_sales_world0
    by simp
qed

subsection \<open>C6: Field projection\<close>

text \<open>
  Claim C6, as the code has it. For every record and every dot-separated path the
  projection never throws. It follows the segments by property lookup and ends in
  \<^verbatim>\<open>null\<close>, which both renderers show as the empty string, as soon as the value
  reached is falsy (\<^verbatim>\<open>null\<close>, \<^verbatim>\<open>undefined\<close>, 0, NaN, the empty string,
  \<^verbatim>\<open>false\<close>), is a mapping that neither has nor inherits the segment, or is a
  number or a boolean that does not inherit it; through a mapping that has the
  segment it goes on from the value found there. Of the three examples of the
  specification, \<^verbatim>\<open>project({a:{b:1}}, "a.b")\<close> is 1, and \<^verbatim>\<open>project({a:1}, "a.b")\<close>
  and \<^verbatim>\<open>project({}, "x")\<close> are the missing value where numbers inherit no \<^verbatim>\<open>b\<close>
  and objects no \<^verbatim>\<open>x\<close>. (A non-empty string reached on the way is not a mapping
  and is still indexed, and an inherited member is found under a segment the mapping
  does not have: see the counterexample below.)
\<close>

theorem project_follows_segments:
  "(\<exists>r. project env item path = Inr r)
   \<and> (\<not> truthy obj \<longrightarrow> reduceProj env obj (k # ks) = Inr JNull)
   \<and> (map_of kvs ka = None \<longrightarrow> inherited env (JObj kvs) ka = None \<longrightarrow>
        reduceProj env (JObj kvs) (ka # ksa) = Inr JNull)
   \<and> (inherited env (JNum n) kb = None \<longrightarrow> reduceProj env (JNum n) (kb # ksb) = Inr JNull)
   \<and> (inherited env (JBool b) kc = None \<longrightarrow> reduceProj env (JBool b) (kc # ksc) = Inr JNull)
   \<and> (map_of kvs' k' = Some v \<longrightarrow> v \<noteq> JUndefined \<longrightarrow>
        reduceProj env (JObj kvs') (k' # ks') = reduceProj env v ks')
   \<and> cellValue JNull = JStr [] \<and> displayValue env JNull = Inr []
   \<and> project env (JObj [(''a'', JObj [(''b'', JNum 1)])]) ''a.b'' = Inr (JNum 1)
   \<and> (inherited env (JNum 1) ''b'' = None \<longrightarrow>
        project env (JObj [(''a'', JNum 1)]) ''a.b'' = Inr JNull)
   \<and> (inherited env (JObj []) ''x'' = None \<longrightarrow> project env (JObj []) ''x'' = Inr JNull)"
proof -
  have falsy: "\<not> truthy obj \<longrightarrow> reduceProj env obj (k # ks) = Inr JNull"
    using reduceProj_falsy by blast
  have absent: "map_of kvs ka = None \<longrightarrow> inherited env (JObj kvs) ka = None \<longrightarrow>
        reduceProj env (JObj kvs) (ka # ksa) = Inr JNull"
    by (simp add: projStep_def inheritedOr_def reduceProj_null)
  have num: "inherited env (JNum n) kb = None \<longrightarrow> reduceProj env (JNum n) (kb # ksb) = Inr JNull"
    by (simp add: projStep_def inheritedOr_def reduceProj_null)
  have bool: "inherited env (JBool b) kc = None \<longrightarrow> reduceProj env (JBool b) (kc # ksc) = Inr JNull"
    by (simp add: projStep_def inheritedOr_def reduceProj_null)
  have present: "map_of kvs' k' = Some v \<longrightarrow> v \<noteq> JUndefined \<longrightarrow>
      reduceProj env (JObj kvs') (k' # ks') = reduceProj env v ks'"
    by (simp add: projStep_def)
  have render: "cellValue JNull = JStr [] \<and> displayValue env JNull = Inr []"
    by (simp add: cellValue_def displayValue_def)
  have ex1: "project env (JObj [(''a'', JObj [(''b'', JNum 1)])]) ''a.b'' = Inr (JNum 1)"
    by (simp add: project_def projStep_def)
  have ex2: "inherited env (JNum 1) ''b'' = None \<longrightarrow>
        project env (JObj [(''a'', JNum 1)]) ''a.b'' = Inr JNull"
    by (simp add: project_def projStep_def inheritedOr_def)
  have ex3: "inherited env (JObj []) ''x'' = None \<longrightarrow> project env (JObj []) ''x'' = Inr JNull"
    by (simp add: project_def projStep_def inheritedOr_def)
  from project_total falsy absent num bool present render ex1 ex2 ex3 show ?thesis by blast
qed

text \<open>In the stub environment, where \<^verbatim>\<open>toString\<close> is the one inherited member: a falsy
  value, a mapping without the segment, a number, a boolean, a mapping that has the
  segment, and the two examples.\<close>

theorem project_follows_segments_witness:
  "\<not> truthy (JNum 0) \<and> reduceProj stubEnv (JNum 0) [''x''] = Inr JNull
   \<and> map_of [] ''x'' = (None :: jsval option) \<and> inherited stubEnv (JObj []) ''x'' = None
   \<and> reduceProj stubEnv (JObj []) [''x'', ''y''] = Inr JNull
   \<and> inherited stubEnv (JNum 7) ''b'' = None \<and> reduceProj stubEnv (JNum 7) [''b''] = Inr JNull
   \<and> inherited stubEnv (JBool True) ''b'' = None \<and> reduceProj stubEnv (JBool True) [''b''] = Inr JNull
   \<and> map_of [(''a'', JObj [(''b'', JNum 1)])] ''a'' = Some (JObj [(''b'', JNum 1)])
   \<and> JObj [(''b'', JNum 1)] \<noteq> JUndefined
   \<and> reduceProj stubEnv (JObj [(''a'', JObj [(''b'', JNum 1)])]) [''a'', ''b'']
       = reduceProj stubEnv (JObj [(''b'', JNum 1)]) [''b'']
   \<and> inherited stubEnv (JNum 1) ''b'' = None
   \<and> project stubEnv (JObj [(''a'', JNum 1)]) ''a.b'' = Inr JNull
   \<and> project stubEnv (JObj []) ''x'' = Inr JNull"
proof -
  have h: "inherited stubEnv obj ''x'' = None" "inherited stubEnv obj ''b'' = None" for obj
    by (simp_all add: stubEnv_def)
  show ?thesis
    using project_follows_segments
      [where env = stubEnv and obj = "JNum 0" and k = "''x''" and ks = "[]"
         and kvs = "[]" and ka = "''x''" and ksa = "[''y'']"
         and n = 7 and kb = "''b''" and ksb = "[]" and b = True and kc = "''b''" and ksc = "[]"
         and kvs' = "[(''a'', JObj [(''b'', JNum 1)])]" and k' = "''a''" and ks' = "[''b'']"
         and v = "JObj [(''b'', JNum 1)]"] h
    by simp
qed

text \<open>
  Claim C6 as stated fails where an intermediate value is a non-empty string: the
  string is not a mapping, yet \<^verbatim>\<open>project({a: "xyz"}, "a.length")\<close> is 3, which
  the workbook renderer writes as it is, not as the empty string. It also fails for a
  segment that the mapping does not have but inherits: \<^verbatim>\<open>project({}, "toString")\<close> is
  the inherited function.
\<close>

theorem project_string_counterexample:
  "project stubEnv (JObj [(''a'', JStr ''xyz'')]) ''a.length'' = Inr (JNum 3)
   \<and> cellValue (JNum 3) \<noteq> JStr []
   \<and> map_of [] ''toString'' = (None :: jsval option)
   \<and> project stubEnv (JObj []) ''toString''
       = Inr (JFunction ''function toString() { [native code] }'')"
  by (simp add: project_def projStep_def cellValue_def inheritedOr_def stubEnv_def)

subsection \<open>C7: Repeating an export\<close>




subsection \<open>C8: Pagination\<close>

text \<open>
  Claim C8. The paginated document always builds, and all data cells are drawn, item
  by item in order. The labels of the header band are all on the first page and no
  later page has a header label: the header is not repeated. The last page ends with
  the footer, the line \<^verbatim>\<open>Total Records: \<close> followed by the number of rows. On a page at
  least 280 high (a letter page is 792 high, the margin is 50) every data row lies
  between the top margin and the bottom margin. In the loop over the rows, when the
  row after the one drawn at \<open>y0\<close> would extend past the bottom margin, a page break
  follows the cells of the row drawn, and the remaining rows continue from the top
  margin (50) of the new page without any header label. The test the code makes is that
  the next row would start lower than the page height less 100, which comes earlier
  and has the same effect.
\<close>

theorem pdf_pagination:
  "(\<exists>ops. buildPdf env data flds title w = Inr ops)
   \<and> (buildPdf env data flds title w = Inr ops \<longrightarrow>
        cellTexts ops = concat (map (\<lambda>item. map (displayOf env item) flds) data)
        \<and> headerTexts (hd (pages ops)) = map headerLabel flds
        \<and> list_all (\<lambda>p. headerTexts p = []) (tl (pages ops))
        \<and> (\<exists>pre. last (pages ops)
               = pre @ [FontSize 10, Text (''Total Records: '' @ show_nat (length data)) ''right''])
        \<and> (280 \<le> pageHeight env \<longrightarrow>
             list_all (\<lambda>y. 50 \<le> y \<and> y + 25 \<le> pageHeight env - 50) (rowTops ops)))
   \<and> (rowOps env flds cw i y0 (item # items) = Inr body \<longrightarrow>
        (y0 + 25) + 25 > pageHeight env - 50 \<longrightarrow>
        (\<exists>cells rest. cellOps env item i y0 cw tableLeft flds = Inr cells
            \<and> rowOps env flds cw (Suc i) 50 items = Inr rest
            \<and> body = cells @ AddPage # rest
            \<and> AddPage \<notin> set cells \<and> headerTexts rest = []))
   \<and> (rowOps env flds cw i' y1 (item' # items') = Inr body' \<longrightarrow>
        y1 + 25 > pageHeight env - 100 \<longrightarrow>
        (\<exists>cells rest. cellOps env item' i' y1 cw tableLeft flds = Inr cells
            \<and> rowOps env flds cw (Suc i') 50 items' = Inr rest
            \<and> body' = cells @ AddPage # rest
            \<and> AddPage \<notin> set cells \<and> headerTexts rest = []))"
proof -
  have doc: "buildPdf env data flds title w = Inr ops \<longrightarrow>
        cellTexts ops = concat (map (\<lambda>item. map (displayOf env item) flds) data)
        \<and> headerTexts (hd (pages ops)) = map headerLabel flds
        \<and> list_all (\<lambda>p. headerTexts p = []) (tl (pages ops))
        \<and> (\<exists>pre. last (pages ops)
               = pre @ [FontSize 10, Text (''Total Records: '' @ show_nat (length data)) ''right''])
        \<and> (280 \<le> pageHeight env \<longrightarrow>
             list_all (\<lambda>y. 50 \<le> y \<and> y + 25 \<le> pageHeight env - 50) (rowTops ops))"
    using buildPdf_pages [of env data flds title w ops] by (simp add: footerOps_def)
  have margin: "rowOps env flds cw i y0 (item # items) = Inr body \<longrightarrow>
        (y0 + 25) + 25 > pageHeight env - 50 \<longrightarrow>
        (\<exists>cells rest. cellOps env item i y0 cw tableLeft flds = Inr cells
            \<and> rowOps env flds cw (Suc i) 50 items = Inr rest
            \<and> body = cells @ AddPage # rest
            \<and> AddPage \<notin> set cells \<and> headerTexts rest = [])"
    using rowOps_break [of env flds cw i y0 item items body] by simp
  have near: "rowOps env flds cw i' y1 (item' # items') = Inr body' \<longrightarrow>
        y1 + 25 > pageHeight env - 100 \<longrightarrow>
        (\<exists>cells rest. cellOps env item' i' y1 cw tableLeft flds = Inr cells
            \<and> rowOps env flds cw (Suc i') 50 items' = Inr rest
            \<and> body' = cells @ AddPage # rest
            \<and> AddPage \<notin> set cells \<and> headerTexts rest = [])"
    using rowOps_break [of env flds cw i' y1 item' items' body'] by simp
  from buildPdf_total doc margin near show ?thesis by blast
qed

text \<open>A one-row document on the letter page, a row drawn at 700 (the next would pass
  the bottom margin at 742), and the 21st row of a first page, drawn at 680, followed
  by one more row.\<close>

theorem pdf_pagination_witness:
  "buildPdf stubEnv [stubRow] [''id''] ''Orders Report'' world0 =
     Inr [FontSize 20, Text ''Orders Report'' ''center'', MoveDown 1,
          FontSize 10, Text ''Generated on: 1/15/2024, 10:30:00 AM'' ''center'', MoveDown 2,
          FontSize 12,
          Rect 50 150 500 30, FillAndStroke ''#e0e0e0'' ''#000000'', FillColor ''#000000'',
          TextAt ''Id'' 55 155 None,
          Rect 50 180 500 25, FillAndStroke ''#ffffff'' ''#000000'', FillColor ''#000000'',
          TextAt ''a'' 55 185 (Some (490, 15)),
          FontSize 10, Text ''Total Records: 1'' ''right'']
   \<and> 280 \<le> pageHeight stubEnv
   \<and> rowOps stubEnv [''id''] 500 0 700 [stubRow] =
       Inr [Rect 50 700 500 25, FillAndStroke ''#ffffff'' ''#000000'', FillColor ''#000000'',
            TextAt ''a'' 55 705 (Some (490, 15)), AddPage]
   \<and> (700 + 25) + 25 > pageHeight stubEnv - 50
   \<and> rowOps stubEnv [''id''] 500 20 680 [stubRow, stubRow] =
       Inr [Rect 50 680 500 25, FillAndStroke ''#ffffff'' ''#000000'', FillColor ''#000000'',
            TextAt ''a'' 55 685 (Some (490, 15)), AddPage,
            Rect 50 50 500 25, FillAndStroke ''#f9f9f9'' ''#000000'', FillColor ''#000000'',
            TextAt ''a'' 55 55 (Some (490, 15))]
   \<and> 680 + 25 > pageHeight stubEnv - 100
   \<and> rowOps stubEnv [''id''] 500 21 50 [stubRow] =
       Inr [Rect 50 50 500 25, FillAndStroke ''#f9f9f9'' ''#000000'', FillColor ''#000000'',
            TextAt ''a'' 55 55 (Some (490, 15))]"
proof -
  have h: "280 \<le> pageHeight stubEnv" "(700 + 25) + 25 > pageHeight stubEnv - 50"
    "680 + 25 > pageHeight stubEnv - 100"
    by (simp_all add: stubEnv_def)
  show ?thesis
    using pdf_pagination [of stubEnv "[stubRow]" "[''id'']" "''Orders Report''" world0 _ 500 0 700
        stubRow "[]" _ 20 680 stubRow "[stubRow]"] stub_doc stub_row_low stub_row_break stub_row_next h
    by simp
qed

subsection \<open>C9: Missing aggregates\<close>

text \<open>
  Claim C9. A sales bucket whose summed item quantity is NULL gives the row 0 for
  \<^verbatim>\<open>itemsSold\<close>, and one whose mean or summed amount is NULL gives the row
  \<^verbatim>\<open>0.00\<close>; a product without reviews gets the average rating \<^verbatim>\<open>0.00\<close>; an order
  whose discount amount is NULL gets the discount 0. The workbook cell holds that
  value and the paginated document shows \<^verbatim>\<open>0\<close> or \<^verbatim>\<open>0.00\<close>. Whatever the
  aggregates are, the cell of the item count and of the discount is a number, and
  the cell and the shown text of the two-decimal fields are never empty.
\<close>

theorem missing_aggregates_render_zero:
  "(b_itemssold item = JNull \<longrightarrow>
      getProp env (formatSale env item) ''itemsSold'' = Inr (JNum 0)
      \<and> cellOf env (formatSale env item) ''itemsSold'' = JNum 0
      \<and> displayOf env (formatSale env item) ''itemsSold'' = ''0'')
   \<and> (b_avgordervalue item = JNull \<longrightarrow>
      getProp env (formatSale env item) ''avgOrderValue'' = Inr (JStr ''0.00'')
      \<and> cellOf env (formatSale env item) ''avgOrderValue'' = JStr ''0.00''
      \<and> displayOf env (formatSale env item) ''avgOrderValue'' = ''0.00'')
   \<and> (b_sales item = JNull \<longrightarrow>
      getProp env (formatSale env item) ''sales'' = Inr (JStr ''0.00'')
      \<and> cellOf env (formatSale env item) ''sales'' = JStr ''0.00''
      \<and> displayOf env (formatSale env item) ''sales'' = ''0.00'')
   \<and> (p_reviews product = [] \<longrightarrow>
      getProp env (formatProduct env product) ''averageRating'' = Inr (JStr ''0.00'')
      \<and> cellOf env (formatProduct env product) ''averageRating'' = JStr ''0.00''
      \<and> displayOf env (formatProduct env product) ''averageRating'' = ''0.00'')
   \<and> (o_discountAmount order = None \<longrightarrow>
      getProp env (formatOrder env order) ''discountAmount'' = Inr (JNum 0)
      \<and> cellOf env (formatOrder env order) ''discountAmount'' = JNum 0
      \<and> displayOf env (formatOrder env order) ''discountAmount'' = ''0'')
   \<and> (\<exists>n. cellOf env (formatSale env item) ''itemsSold'' = JNum n)
   \<and> cellOf env (formatSale env item) ''avgOrderValue'' \<noteq> JStr []
   \<and> displayOf env (formatSale env item) ''avgOrderValue'' \<noteq> []
   \<and> cellOf env (formatSale env item) ''sales'' \<noteq> JStr []
   \<and> displayOf env (formatSale env item) ''sales'' \<noteq> []
   \<and> cellOf env (formatProduct env product) ''averageRating'' \<noteq> JStr []
   \<and> displayOf env (formatProduct env product) ''averageRating'' \<noteq> []
   \<and> (\<exists>n. cellOf env (formatOrder env order) ''discountAmount'' = JNum n)"
proof -
  have items: "b_itemssold item = JNull \<longrightarrow>
      getProp env (formatSale env item) ''itemsSold'' = Inr (JNum 0)
      \<and> cellOf env (formatSale env item) ''itemsSold'' = JNum 0
      \<and> displayOf env (formatSale env item) ''itemsSold'' = ''0''"
    by (simp add: cellOf_def displayOf_def sale_cells zero_cell jsOr_def) (simp add: formatSale_def jsOr_def)
  have avg: "b_avgordervalue item = JNull \<longrightarrow>
      getProp env (formatSale env item) ''avgOrderValue'' = Inr (JStr ''0.00'')
      \<and> cellOf env (formatSale env item) ''avgOrderValue'' = JStr ''0.00''
      \<and> displayOf env (formatSale env item) ''avgOrderValue'' = ''0.00''"
    by (simp add: cellOf_def displayOf_def sale_cells zero_cell toFixed2_zero) (simp add: formatSale_def toFixed2_zero)
  have sales: "b_sales item = JNull \<longrightarrow>
      getProp env (formatSale env item) ''sales'' = Inr (JStr ''0.00'')
      \<and> cellOf env (formatSale env item) ''sales'' = JStr ''0.00''
      \<and> displayOf env (formatSale env item) ''sales'' = ''0.00''"
    by (simp add: cellOf_def displayOf_def sale_cells zero_cell toFixed2_zero) (simp add: formatSale_def toFixed2_zero)
  have rating: "p_reviews product = [] \<longrightarrow>
      getProp env (formatProduct env product) ''averageRating'' = Inr (JStr ''0.00'')
      \<and> cellOf env (formatProduct env product) ''averageRating'' = JStr ''0.00''
      \<and> displayOf env (formatProduct env product) ''averageRating'' = ''0.00''"
    by (simp add: cellOf_def displayOf_def product_cells zero_cell averageRating_def)
       (simp add: formatProduct_def averageRating_def)
  have discount: "o_discountAmount order = None \<longrightarrow>
      getProp env (formatOrder env order) ''discountAmount'' = Inr (JNum 0)
      \<and> cellOf env (formatOrder env order) ''discountAmount'' = JNum 0
      \<and> displayOf env (formatOrder env order) ''discountAmount'' = ''0''"
    by (simp add: cellOf_def displayOf_def order_cells zero_cell jsOr_def nullable_def)
       (simp add: formatOrder_def jsOr_def nullable_def)
  have n1: "\<exists>n. cellOf env (formatSale env item) ''itemsSold'' = JNum n"
    using orZero_num [of env "b_itemssold item"] by (auto simp: cellOf_def sale_cells cellValue_def)
  have n2: "cellOf env (formatSale env item) ''avgOrderValue'' \<noteq> JStr []
      \<and> displayOf env (formatSale env item) ''avgOrderValue'' \<noteq> []"
    by (simp add: cellOf_def displayOf_def displayValue_def sale_cells cellValue_def toFixed_nonempty)
  have n3: "cellOf env (formatSale env item) ''sales'' \<noteq> JStr []
      \<and> displayOf env (formatSale env item) ''sales'' \<noteq> []"
    by (simp add: cellOf_def displayOf_def displayValue_def sale_cells cellValue_def toFixed_nonempty)
  have n4: "cellOf env (formatProduct env product) ''averageRating'' \<noteq> JStr []
      \<and> displayOf env (formatProduct env product) ''averageRating'' \<noteq> []"
    using toFixed_nonempty [of "JNum x" for x]
    by (simp add: cellOf_def displayOf_def displayValue_def product_cells cellValue_def averageRating_def)
  have n5: "\<exists>n. cellOf env (formatOrder env order) ''discountAmount'' = JNum n"
    by (cases "o_discountAmount order") (simp_all add: cellOf_def order_cells cellValue_def jsOr_def nullable_def)
  from items avg sales rating discount n1 n2 n3 n4 n5 show ?thesis by blast
qed

text \<open>A bucket whose aggregates are all NULL, a product without reviews and an order
  without discount.\<close>

theorem missing_aggregates_render_zero_witness:
  "b_itemssold nullBucket = JNull \<and> b_avgordervalue nullBucket = JNull \<and> b_sales nullBucket = JNull
   \<and> p_reviews stubProduct = [] \<and> o_discountAmount stubOrder = None
   \<and> cellOf stubEnv (formatSale stubEnv nullBucket) ''itemsSold'' = JNum 0
   \<and> cellOf stubEnv (formatSale stubEnv nullBucket) ''avgOrderValue'' = JStr ''0.00''
   \<and> cellOf stubEnv (formatSale stubEnv nullBucket) ''sales'' = JStr ''0.00''
   \<and> cellOf stubEnv (formatProduct stubEnv stubProduct) ''averageRating'' = JStr ''0.00''
   \<and> cellOf stubEnv (formatOrder stubEnv stubOrder) ''discountAmount'' = JNum 0"
proof -
  have h: "b_itemssold nullBucket = JNull \<and> b_avgordervalue nullBucket = JNull \<and> b_sales nullBucket = JNull
      \<and> p_reviews stubProduct = [] \<and> o_discountAmount stubOrder = None"
    by (simp add: nullBucket_def stubProduct_def stubOrder_def)
  show ?thesis
    using missing_aggregates_render_zero [of nullBucket stubEnv stubProduct stubOrder] h by simp
qed

subsection \<open>C10: Header labels\<close>



end
